theory Spec2Isabelle
  imports Main
begin

section \<open>Documents of the scheduling subsystem\<close>

text \<open>
  The scheduling controller (\<^verbatim>\<open>exports.createSchedule\<close>, \<^verbatim>\<open>exports.updateSchedule\<close> with
  \<^verbatim>\<open>req, res, next\<close>) and the scheduling service (\<^verbatim>\<open>checkScheduleConflicts\<close>,
  \<^verbatim>\<open>getAvailableTechnicians\<close>, \<^verbatim>\<open>autoAssignTechnician\<close>) work on three Mongoose
  collections: users, support requests and schedules. A collection is a list of documents
  in insertion order; an ObjectId is a natural number; a \<^verbatim>\<open>Date\<close> is its number of
  milliseconds since the epoch. Enumerated strings (\<^verbatim>\<open>userType\<close>, \<^verbatim>\<open>status\<close>,
  \<^verbatim>\<open>priority\<close>) stay strings, since the handlers compare and store raw strings and only
  Mongoose's validators at \<^verbatim>\<open>save\<close> know the enumerations.
\<close>

type_synonym oid = nat
type_synonym date = int

text \<open>\<^verbatim>\<open>req.user\<close> carries \<^verbatim>\<open>userId\<close> and \<^verbatim>\<open>userType\<close>; a User document carries the same
  two under \<^verbatim>\<open>_id\<close> and \<^verbatim>\<open>userType\<close>, so one record serves for both.\<close>

record user =
  userId :: oid
  userType :: string

record history_entry =
  action :: string
  performedBy :: oid
  details :: string

text \<open>The fields of a SupportRequest document that the scheduling code reads or writes.
  \<^verbatim>\<open>req_location\<close> is what \<^verbatim>\<open>supportRequest.location\<close> evaluates to in the service.\<close>

record support_request =
  req_id :: oid
  req_status :: string
  req_priority :: "string option"
  req_location :: "string option"
  assignedTo :: "oid option"
  history :: "history_entry list"

text \<open>A Schedule document as stored: the paths of \<^verbatim>\<open>scheduleSchema\<close>. Mongoose keeps
  no other path when it writes a document.\<close>

record schedule =
  sched_id :: oid
  technician :: oid
  supportRequest :: "oid option"
  scheduledStart :: date
  scheduledEnd :: date
  status :: string
  sched_notes :: "string option"
  priority :: string
  location :: "string option"
  createdBy :: "oid option"

record db =
  users :: "user list"
  requests :: "support_request list"
  schedules :: "schedule list"

text \<open>The enumerations of \<^verbatim>\<open>scheduleSchema\<close>, checked by Mongoose when a document is saved.\<close>

definition status_enum :: "string list" where
  "status_enum = [''scheduled'', ''in_progress'', ''completed'', ''cancelled'', ''rescheduled'']"

definition priority_enum :: "string list" where
  "priority_enum = [''low'', ''medium'', ''high'', ''critical'']"

text \<open>\<^verbatim>\<open>status: { $nin: ['completed', 'cancelled'] }\<close> of the controller's conflict queries.\<close>

definition nin_terminal :: "string \<Rightarrow> bool" where
  "nin_terminal s = (s \<notin> set [''completed'', ''cancelled''])"

text \<open>\<^verbatim>\<open>a || b\<close> on an optional string: \<^verbatim>\<open>undefined\<close>, \<^verbatim>\<open>null\<close> and the empty string
  are falsy.\<close>

definition truthy :: "string option \<Rightarrow> bool" where
  "truthy v = (case v of None \<Rightarrow> False | Some s \<Rightarrow> s \<noteq> [])"

definition js_or :: "string option \<Rightarrow> string option \<Rightarrow> string option" where
  "js_or a b = (if truthy a then a else b)"

definition js_or_str :: "string option \<Rightarrow> string \<Rightarrow> string" where
  "js_or_str a b = (case a of None \<Rightarrow> b | Some s \<Rightarrow> if s = [] then b else s)"

text \<open>\<^verbatim>\<open>v ? new Date(v) : old\<close>: \<open>None\<close> stands for a falsy body value, \<open>Some t\<close> for a
  truthy one that \<^verbatim>\<open>new Date\<close> reads as the instant \<open>t\<close>.\<close>

definition date_or :: "date option \<Rightarrow> date \<Rightarrow> date" where
  "date_or v old = (case v of None \<Rightarrow> old | Some t \<Rightarrow> t)"

text \<open>\<^verbatim>\<open>Model.findById\<close>: the document with that \<^verbatim>\<open>_id\<close>, or \<^verbatim>\<open>null\<close>; \<^verbatim>\<open>findById(undefined)\<close>
  is \<^verbatim>\<open>null\<close>.\<close>

definition User_findById :: "user list \<Rightarrow> oid option \<Rightarrow> user option" where
  "User_findById us i = (case i of None \<Rightarrow> None | Some k \<Rightarrow> find (\<lambda>u. userId u = k) us)"

definition SupportRequest_findById :: "support_request list \<Rightarrow> oid option \<Rightarrow> support_request option" where
  "SupportRequest_findById rs i = (case i of None \<Rightarrow> None | Some k \<Rightarrow> find (\<lambda>r. req_id r = k) rs)"

definition Schedule_findById :: "schedule list \<Rightarrow> oid \<Rightarrow> schedule option" where
  "Schedule_findById ss i = find (\<lambda>x. sched_id x = i) ss"

text \<open>Writing one document back: \<^verbatim>\<open>doc.save()\<close> and \<^verbatim>\<open>findByIdAndUpdate\<close> change the
  one document with that \<^verbatim>\<open>_id\<close>, which is the first that \<^verbatim>\<open>findById\<close> meets.\<close>

fun update_first :: "('a \<Rightarrow> bool) \<Rightarrow> ('a \<Rightarrow> 'a) \<Rightarrow> 'a list \<Rightarrow> 'a list" where
  "update_first P f [] = []"
| "update_first P f (x # xs) = (if P x then f x # xs else x # update_first P f xs)"

definition save_schedule :: "schedule \<Rightarrow> schedule list \<Rightarrow> schedule list" where
  "save_schedule s ss = update_first (\<lambda>x. sched_id x = sched_id s) (\<lambda>x. s) ss"

definition save_request :: "support_request \<Rightarrow> support_request list \<Rightarrow> support_request list" where
  "save_request r rs = update_first (\<lambda>x. req_id x = req_id r) (\<lambda>x. r) rs"

text \<open>\<^verbatim>\<open>new Schedule({...})\<close> draws an ObjectId that no stored document has; the embedding
  takes the successor of the largest stored id.\<close>

definition new_ObjectId :: "schedule list \<Rightarrow> oid" where
  "new_ObjectId ss = Suc (foldr max (map sched_id ss) 0)"

section \<open>The controller\<close>

text \<open>What a handler does with \<^verbatim>\<open>res\<close> or \<^verbatim>\<open>next\<close>: a status with a message, the
  validation errors (400), the conflict payload (400), the two success answers, or an
  exception handed to \<^verbatim>\<open>next(error)\<close> with its \<^verbatim>\<open>name\<close>.\<close>

datatype response =
    Json nat string
  | ValidationErrors "string list"
  | Conflict "schedule list"
  | Created oid
  | Updated schedule
  | NextError string

text \<open>The HTTP status of a response; \<^verbatim>\<open>errorHandler\<close> answers 400 to a
  \<^verbatim>\<open>ValidationError\<close> or \<^verbatim>\<open>CastError\<close> and 500 otherwise.\<close>

fun http_status :: "response \<Rightarrow> nat" where
  "http_status (Json c m) = c"
| "http_status (ValidationErrors es) = 400"
| "http_status (Conflict cs) = 400"
| "http_status (Created i) = 201"
| "http_status (Updated s) = 200"
| "http_status (NextError n) = (if n = ''ValidationError'' \<or> n = ''CastError'' then 400 else 500)"

fun is_Created :: "response \<Rightarrow> bool" where
  "is_Created (Created i) = True"
| "is_Created r = False"

fun is_Updated :: "response \<Rightarrow> bool" where
  "is_Updated (Updated s) = True"
| "is_Updated r = False"

text \<open>The conflict query both handlers run inline:
  \<^verbatim>\<open>Schedule.find({ _id: {$ne: id}, technician, $or: [{ scheduledStart: {$lt: end},
  scheduledEnd: {$gt: start} }], status: {$nin: ['completed', 'cancelled']} })\<close>,
  without the \<^verbatim>\<open>_id\<close> clause in \<^verbatim>\<open>createSchedule\<close>.\<close>

definition conflict_query :: "schedule list \<Rightarrow> oid option \<Rightarrow> oid \<Rightarrow> date \<Rightarrow> date \<Rightarrow> schedule list" where
  "conflict_query ss exclude tech newStart newEnd =
     filter (\<lambda>x. (case exclude of None \<Rightarrow> True | Some i \<Rightarrow> sched_id x \<noteq> i)
                \<and> technician x = tech
                \<and> (scheduledStart x < newEnd \<and> scheduledEnd x > newStart)
                \<and> nin_terminal (status x)) ss"

text \<open>\<^verbatim>\<open>priority: priority || supportRequest.priority\<close>, with the schema default
  \<^verbatim>\<open>'medium'\<close> when the expression is \<^verbatim>\<open>undefined\<close>.\<close>

definition schedule_priority :: "string option \<Rightarrow> string option \<Rightarrow> string" where
  "schedule_priority p rp = (case js_or p rp of None \<Rightarrow> ''medium'' | Some v \<Rightarrow> v)"

text \<open>\<^verbatim>\<open>req.body\<close> of \<^verbatim>\<open>POST /schedule\<close>. The two dates are the instants \<^verbatim>\<open>new Date\<close>
  reads from the body.\<close>

record create_body =
  c_technicianId :: "oid option"
  c_supportRequestId :: "oid option"
  c_scheduledStart :: date
  c_scheduledEnd :: date
  c_notes :: "string option"
  c_priority :: "string option"
  c_location :: "string option"

text \<open>\<^verbatim>\<open>exports.createSchedule\<close> of the controller. \<open>errors\<close> is
  \<^verbatim>\<open>validationResult(req).array()\<close>, produced by the route's validators. Where the
  handler writes \<^verbatim>\<open>technicianId\<close> and \<^verbatim>\<open>supportRequestId\<close> after the two lookups, the
  embedding writes the \<^verbatim>\<open>_id\<close> of the document found, which is that id.\<close>

definition createSchedule :: "db \<Rightarrow> user \<Rightarrow> string list \<Rightarrow> create_body \<Rightarrow> response \<times> db" where
  "createSchedule d usr errors body =
    (if userType usr \<noteq> ''admin'' then (Json 403 ''Access denied'', d)
     else if errors \<noteq> [] then (ValidationErrors errors, d)
     else case User_findById (users d) (c_technicianId body) of
       None \<Rightarrow> (Json 400 ''Invalid technician'', d)
     | Some tech \<Rightarrow>
        if userType tech \<noteq> ''technician'' then (Json 400 ''Invalid technician'', d)
        else case SupportRequest_findById (requests d) (c_supportRequestId body) of
          None \<Rightarrow> (Json 400 ''Invalid support request'', d)
        | Some sr \<Rightarrow>
           let conflicts = conflict_query (schedules d) None (userId tech)
                             (c_scheduledStart body) (c_scheduledEnd body)
           in if conflicts \<noteq> [] then (Conflict conflicts, d)
              else
                let s = \<lparr> sched_id = new_ObjectId (schedules d),
                          technician = userId tech,
                          supportRequest = Some (req_id sr),
                          scheduledStart = c_scheduledStart body,
                          scheduledEnd = c_scheduledEnd body,
                          status = ''scheduled'',
                          sched_notes = c_notes body,
                          priority = schedule_priority (c_priority body) (req_priority sr),
                          location = c_location body,
                          createdBy = Some (userId usr) \<rparr>
                in if priority s \<notin> set priority_enum then (NextError ''ValidationError'', d)
                   else
                     let d1 = d\<lparr>schedules := schedules d @ [s]\<rparr>;
                         d2 = (if req_status sr = ''new''
                               then d1\<lparr>requests := save_request
                                      (sr\<lparr>req_status := ''assigned'',
                                          assignedTo := Some (userId tech),
                                          history := history sr @
                                            [\<lparr>action = ''assigned'', performedBy = userId usr,
                                              details = ''Request assigned to technician''\<rparr>]\<rparr>)
                                      (requests d1)\<rparr>
                               else d1)
                     in (Created (sched_id s), d2))"

text \<open>\<^verbatim>\<open>req.body\<close> of \<^verbatim>\<open>PUT /schedule/:id\<close>: only these four fields are read.\<close>

record update_body =
  u_scheduledStart :: "date option"
  u_scheduledEnd :: "date option"
  u_status :: "string option"
  u_notes :: "string option"

text \<open>The field assignments of \<^verbatim>\<open>exports.updateSchedule\<close> up to the conflict check: the
  early answer of the conflict branch, or the document as modified in memory.\<close>

definition apply_update :: "db \<Rightarrow> user \<Rightarrow> oid \<Rightarrow> update_body \<Rightarrow> schedule \<Rightarrow> response + schedule" where
  "apply_update d usr i body s =
    (if userType usr = ''technician'' then
       Inr (s\<lparr>status := js_or_str (u_status body) (status s),
              sched_notes := js_or (u_notes body) (sched_notes s)\<rparr>)
     else
       let s' = s\<lparr>scheduledStart := date_or (u_scheduledStart body) (scheduledStart s),
                  scheduledEnd := date_or (u_scheduledEnd body) (scheduledEnd s),
                  status := js_or_str (u_status body) (status s),
                  sched_notes := js_or (u_notes body) (sched_notes s)\<rparr>
       in if u_scheduledStart body \<noteq> None \<or> u_scheduledEnd body \<noteq> None then
            let newStart = date_or (u_scheduledStart body) (scheduledStart s');
                newEnd = date_or (u_scheduledEnd body) (scheduledEnd s');
                conflicts = conflict_query (schedules d) (Some i) (technician s') newStart newEnd
            in if conflicts \<noteq> [] then Inl (Conflict conflicts) else Inr s'
          else Inr s')"

text \<open>The cascade after \<^verbatim>\<open>schedule.save()\<close>, with the test as the handler writes it:
  \<^verbatim>\<open>status === 'completed' && schedule.status !== 'completed'\<close>, where \<^verbatim>\<open>schedule\<close> is the
  document already modified and saved.\<close>

definition cascade_completed :: "db \<Rightarrow> user \<Rightarrow> update_body \<Rightarrow> schedule \<Rightarrow> db" where
  "cascade_completed d usr body s =
    (if u_status body = Some ''completed'' \<and> status s \<noteq> ''completed'' then
       (case SupportRequest_findById (requests d) (supportRequest s) of
          None \<Rightarrow> d
        | Some sr \<Rightarrow>
           if req_status sr \<noteq> ''resolved'' then
             d\<lparr>requests := save_request
                 (sr\<lparr>req_status := ''resolved'',
                     history := history sr @
                       [\<lparr>action = ''resolved'', performedBy = userId usr,
                         details = ''Support request resolved''\<rparr>]\<rparr>)
                 (requests d)\<rparr>
           else d)
     else d)"

text \<open>\<^verbatim>\<open>exports.updateSchedule\<close> of the controller. \<^verbatim>\<open>schedule.save()\<close> validates the paths
  that changed; of the paths the handler assigns only \<^verbatim>\<open>status\<close> has a validator (the
  enumeration), and the handler does not consult \<^verbatim>\<open>validationResult\<close>.\<close>

definition updateSchedule :: "db \<Rightarrow> user \<Rightarrow> oid \<Rightarrow> update_body \<Rightarrow> response \<times> db" where
  "updateSchedule d usr i body =
    (if userType usr \<noteq> ''admin'' \<and> userType usr \<noteq> ''technician''
     then (Json 403 ''Access denied'', d)
     else case Schedule_findById (schedules d) i of
       None \<Rightarrow> (Json 404 ''Schedule not found'', d)
     | Some s \<Rightarrow>
        if userType usr = ''technician'' \<and> technician s \<noteq> userId usr
        then (Json 403 ''You can only update your own schedules'', d)
        else case apply_update d usr i body s of
          Inl r \<Rightarrow> (r, d)
        | Inr s' \<Rightarrow>
           if status s' \<noteq> status s \<and> status s' \<notin> set status_enum
           then (NextError ''ValidationError'', d)
           else
             let d1 = d\<lparr>schedules := save_schedule s' (schedules d)\<rparr>
             in (Updated s', cascade_completed d1 usr body s'))"

section \<open>The service\<close>

text \<open>The service module names the window of a schedule \<^verbatim>\<open>startTime\<close> and
  \<^verbatim>\<open>endTime\<close>, in its queries and in the object it hands to \<^verbatim>\<open>Schedule.create\<close>.
  \<^verbatim>\<open>scheduleSchema\<close> has \<^verbatim>\<open>scheduledStart\<close> and \<^verbatim>\<open>scheduledEnd\<close> and no path of those two
  names, so in every stored document both are absent.\<close>

definition path_startTime :: "schedule \<Rightarrow> date option" where
  "path_startTime x = None"

definition path_endTime :: "schedule \<Rightarrow> date option" where
  "path_endTime x = None"

text \<open>The query operators \<^verbatim>\<open>$lt\<close> and \<^verbatim>\<open>$gt\<close> on a path of a document: a condition on
  an absent path matches nothing.\<close>

definition op_lt :: "date option \<Rightarrow> date \<Rightarrow> bool" where
  "op_lt v bound = (case v of None \<Rightarrow> False | Some t \<Rightarrow> t < bound)"

definition op_gt :: "date option \<Rightarrow> date \<Rightarrow> bool" where
  "op_gt v bound = (case v of None \<Rightarrow> False | Some t \<Rightarrow> t > bound)"

text \<open>\<^verbatim>\<open>checkScheduleConflicts(technicianId, startTime, endTime, excludeScheduleId = null)\<close>:
  \<^verbatim>\<open>Schedule.find({ technician, startTime: {$lt: endTime}, endTime: {$gt: startTime} })\<close>,
  with \<^verbatim>\<open>_id: {$ne: excludeScheduleId}\<close> when that is given.\<close>

definition checkScheduleConflicts :: "schedule list \<Rightarrow> oid \<Rightarrow> date \<Rightarrow> date \<Rightarrow> oid option \<Rightarrow> schedule list" where
  "checkScheduleConflicts ss technicianId startTime endTime excludeScheduleId =
     filter (\<lambda>x. technician x = technicianId
                \<and> op_lt (path_startTime x) endTime
                \<and> op_gt (path_endTime x) startTime
                \<and> (case excludeScheduleId of None \<Rightarrow> True | Some i \<Rightarrow> sched_id x \<noteq> i)) ss"

text \<open>\<^verbatim>\<open>getAvailableTechnicians(startTime, endTime)\<close>: the users of type technician that
  are not among the distinct technicians of the schedules matching
  \<^verbatim>\<open>{ startTime: {$lt: endTime}, endTime: {$gt: startTime} }\<close>. The query names no
  status.\<close>

definition getAvailableTechnicians :: "db \<Rightarrow> date \<Rightarrow> date \<Rightarrow> user list" where
  "getAvailableTechnicians d startTime endTime =
    (let technicians = filter (\<lambda>u. userType u = ''technician'') (users d);
         busyTechnicians = remdups (map technician
            (filter (\<lambda>x. op_lt (path_startTime x) endTime \<and> op_gt (path_endTime x) startTime)
               (schedules d)))
     in filter (\<lambda>tech. \<not> list_ex (\<lambda>i. i = userId tech) busyTechnicians) technicians)"

text \<open>The \<^verbatim>\<open>scheduleData\<close> object of the service: the technician and the two dates the
  service reads from it (\<^verbatim>\<open>startTime\<close>, \<^verbatim>\<open>endTime\<close>), and the paths of \<^verbatim>\<open>scheduleSchema\<close>
  it may carry, an absent one being \<open>None\<close>. \<^verbatim>\<open>title\<close> and \<^verbatim>\<open>description\<close> are not
  paths of the schema.\<close>

record schedule_data =
  sd_technician :: oid
  sd_startTime :: date
  sd_endTime :: date
  sd_supportRequest :: "oid option"
  sd_scheduledStart :: "date option"
  sd_scheduledEnd :: "date option"
  sd_createdBy :: "oid option"
  sd_location :: "string option"
  sd_status :: "string option"
  sd_priority :: "string option"
  sd_notes :: "string option"

text \<open>What the service throws: an \<^verbatim>\<open>Error\<close> with its message, or the
  \<^verbatim>\<open>ValidationError\<close> of Mongoose.\<close>

datatype service_error = Error string | ValidationError

text \<open>\<^verbatim>\<open>Schedule.create({...scheduleData, createdAt})\<close>: the schema requires
  \<^verbatim>\<open>technician\<close>, \<^verbatim>\<open>supportRequest\<close>, \<^verbatim>\<open>scheduledStart\<close>, \<^verbatim>\<open>scheduledEnd\<close> and
  \<^verbatim>\<open>createdBy\<close>, fills the defaults \<^verbatim>\<open>status: 'scheduled'\<close> and \<^verbatim>\<open>priority: 'medium'\<close>,
  checks the two enumerations, and keeps none of \<^verbatim>\<open>startTime\<close>, \<^verbatim>\<open>endTime\<close>.\<close>

definition Schedule_create :: "schedule list \<Rightarrow> schedule_data \<Rightarrow> service_error + schedule" where
  "Schedule_create ss doc =
    (case sd_supportRequest doc of None \<Rightarrow> Inl ValidationError | Some r \<Rightarrow>
     case sd_scheduledStart doc of None \<Rightarrow> Inl ValidationError | Some s \<Rightarrow>
     case sd_scheduledEnd doc of None \<Rightarrow> Inl ValidationError | Some e \<Rightarrow>
     case sd_createdBy doc of None \<Rightarrow> Inl ValidationError | Some c \<Rightarrow>
       let sch = \<lparr> sched_id = new_ObjectId ss,
                   technician = sd_technician doc,
                   supportRequest = Some r,
                   scheduledStart = s,
                   scheduledEnd = e,
                   status = (case sd_status doc of None \<Rightarrow> ''scheduled'' | Some v \<Rightarrow> v),
                   sched_notes = sd_notes doc,
                   priority = (case sd_priority doc of None \<Rightarrow> ''medium'' | Some v \<Rightarrow> v),
                   location = sd_location doc,
                   createdBy = Some c \<rparr>
       in if status sch \<notin> set status_enum \<or> priority sch \<notin> set priority_enum
          then Inl ValidationError else Inr sch)"

text \<open>\<^verbatim>\<open>exports.createSchedule(scheduleData)\<close> of the service: the conflict check, then
  \<^verbatim>\<open>Schedule.create\<close>, then \<^verbatim>\<open>findByIdAndUpdate\<close> on the linked request, which sets its
  status to \<^verbatim>\<open>'scheduled'\<close>. The result is what is thrown or returned, with the store
  after the call. Notification documents are written to a collection of their own, which
  is not part of \<open>db\<close>.\<close>

definition service_createSchedule :: "db \<Rightarrow> schedule_data \<Rightarrow> (service_error + schedule) \<times> db" where
  "service_createSchedule d scheduleData =
    (let conflicts = checkScheduleConflicts (schedules d) (sd_technician scheduleData)
                       (sd_startTime scheduleData) (sd_endTime scheduleData) None
     in if conflicts \<noteq> []
        then (Inl (Error ''Schedule conflicts with existing appointments''), d)
        else case Schedule_create (schedules d) scheduleData of
               Inl err \<Rightarrow> (Inl err, d)
             | Inr sch \<Rightarrow>
                 let d1 = d\<lparr>schedules := schedules d @ [sch]\<rparr>;
                     d2 = (case sd_supportRequest scheduleData of
                             None \<Rightarrow> d1
                           | Some r \<Rightarrow> d1\<lparr>requests :=
                               update_first (\<lambda>q. req_id q = r)
                                 (\<lambda>q. q\<lparr>req_status := ''scheduled''\<rparr>) (requests d1)\<rparr>)
                 in (Inr sch, d2))"

text \<open>\<^verbatim>\<open>autoAssignTechnician(supportRequestId, preferredDate, durationHours = 2)\<close>. The end
  of the window is \<^verbatim>\<open>setHours(getHours() + durationHours)\<close>, taken here as whole hours of
  3600000 ms (no change of the local clock inside the window). The object it builds names
  \<^verbatim>\<open>title, description, technician, supportRequest, startTime, endTime, location, status\<close>
  and nothing else.\<close>

definition autoAssignTechnician :: "db \<Rightarrow> oid \<Rightarrow> date \<Rightarrow> int \<Rightarrow> (service_error + schedule) \<times> db" where
  "autoAssignTechnician d supportRequestId preferredDate durationHours =
    (case SupportRequest_findById (requests d) (Some supportRequestId) of
       None \<Rightarrow> (Inl (Error ''Support request not found''), d)
     | Some sr \<Rightarrow>
        let startTime = preferredDate;
            endTime = startTime + durationHours * 3600000;
            availableTechnicians = getAvailableTechnicians d startTime endTime
        in case availableTechnicians of
             [] \<Rightarrow> (Inl (Error ''No technicians available for the requested time slot''), d)
           | selectedTechnician # rest \<Rightarrow>
               service_createSchedule d
                 \<lparr> sd_technician = userId selectedTechnician,
                   sd_startTime = startTime,
                   sd_endTime = endTime,
                   sd_supportRequest = Some supportRequestId,
                   sd_scheduledStart = None,
                   sd_scheduledEnd = None,
                   sd_createdBy = None,
                   sd_location = Some (js_or_str (req_location sr) ''To be determined''),
                   sd_status = Some ''scheduled'',
                   sd_priority = None,
                   sd_notes = None \<rparr>)"

section \<open>Sequences of calls and the properties stated of them\<close>

text \<open>A call of one of the two controller handlers, and its effect on the store.\<close>

datatype call =
    CreateSchedule user "string list" create_body
  | UpdateSchedule user oid update_body

fun perform :: "db \<Rightarrow> call \<Rightarrow> response \<times> db" where
  "perform d (CreateSchedule usr errors body) = createSchedule d usr errors body"
| "perform d (UpdateSchedule usr i body) = updateSchedule d usr i body"

definition succeeded :: "response \<Rightarrow> bool" where
  "succeeded r = (is_Created r \<or> is_Updated r)"

fun run :: "db \<Rightarrow> call list \<Rightarrow> db" where
  "run d [] = d"
| "run d (c # cs) = run (snd (perform d c)) cs"

fun all_succeed :: "db \<Rightarrow> call list \<Rightarrow> bool" where
  "all_succeed d [] = True"
| "all_succeed d (c # cs) = (succeeded (fst (perform d c)) \<and> all_succeed (snd (perform d c)) cs)"

text \<open>The overlap condition on two schedules, and double-booking: two different
  schedules of one technician, both with a status outside completed and cancelled, whose
  windows overlap.\<close>

definition overlaps :: "schedule \<Rightarrow> schedule \<Rightarrow> bool" where
  "overlaps a b = (scheduledStart a < scheduledEnd b \<and> scheduledStart b < scheduledEnd a)"

definition double_booked :: "schedule \<Rightarrow> schedule \<Rightarrow> bool" where
  "double_booked a b =
     (sched_id a \<noteq> sched_id b \<and> technician a = technician b
      \<and> nin_terminal (status a) \<and> nin_terminal (status b) \<and> overlaps a b)"

definition conflict_free :: "schedule list \<Rightarrow> bool" where
  "conflict_free ss = (\<not> list_ex (\<lambda>a. list_ex (double_booked a) ss) ss)"

text \<open>An update that takes a stored schedule from completed or cancelled to another status
  on a path of \<^verbatim>\<open>updateSchedule\<close> that runs no conflict query: any update by a technician,
  and an update by another actor whose body has neither \<^verbatim>\<open>scheduledStart\<close> nor
  \<^verbatim>\<open>scheduledEnd\<close>.\<close>

fun revives :: "db \<Rightarrow> call \<Rightarrow> bool" where
  "revives d (CreateSchedule usr errors body) = False"
| "revives d (UpdateSchedule usr i body) =
     (case Schedule_findById (schedules d) i of
        None \<Rightarrow> False
      | Some s \<Rightarrow>
          \<not> nin_terminal (status s) \<and> nin_terminal (js_or_str (u_status body) (status s))
          \<and> (userType usr = ''technician''
              \<or> (u_scheduledStart body = None \<and> u_scheduledEnd body = None)))"

fun no_revival :: "db \<Rightarrow> call list \<Rightarrow> bool" where
  "no_revival d [] = True"
| "no_revival d (c # cs) = (\<not> revives d c \<and> no_revival (snd (perform d c)) cs)"

text \<open>Whether a technician has a schedule with a status outside completed and cancelled
  that meets the window from \<open>s\<close> to \<open>e\<close>.\<close>

definition has_active_overlap :: "schedule list \<Rightarrow> oid \<Rightarrow> date \<Rightarrow> date \<Rightarrow> bool" where
  "has_active_overlap ss t s e =
     list_ex (\<lambda>x. technician x = t \<and> nin_terminal (status x)
                 \<and> scheduledStart x < e \<and> scheduledEnd x > s) ss"

section \<open>Example stores\<close>

definition hour :: "int \<Rightarrow> date" where
  "hour n = n * 3600000"

definition ex_admin :: user where
  "ex_admin = \<lparr>userId = 100, userType = ''admin''\<rparr>"

definition ex_tech :: user where
  "ex_tech = \<lparr>userId = 1, userType = ''technician''\<rparr>"

definition ex_tech2 :: user where
  "ex_tech2 = \<lparr>userId = 2, userType = ''technician''\<rparr>"

definition ex_request :: support_request where
  "ex_request = \<lparr>req_id = 7, req_status = ''assigned'', req_priority = Some ''high'',
                 req_location = None, assignedTo = Some 1, history = []\<rparr>"

text \<open>Technician 1 from 09:00 to 11:00, linked to request 7.\<close>

definition ex_sched :: schedule where
  "ex_sched = \<lparr>sched_id = 1, technician = 1, supportRequest = Some 7,
               scheduledStart = hour 9, scheduledEnd = hour 11, status = ''scheduled'',
               sched_notes = None, priority = ''high'', location = None, createdBy = Some 100\<rparr>"

definition ex_db0 :: db where
  "ex_db0 = \<lparr>users = [ex_admin, ex_tech, ex_tech2], requests = [ex_request], schedules = []\<rparr>"

definition ex_db :: db where
  "ex_db = ex_db0\<lparr>schedules := [ex_sched]\<rparr>"

definition ex_body :: "date \<Rightarrow> date \<Rightarrow> create_body" where
  "ex_body s e = \<lparr>c_technicianId = Some 1, c_supportRequestId = Some 7,
                  c_scheduledStart = s, c_scheduledEnd = e, c_notes = None,
                  c_priority = None, c_location = None\<rparr>"

definition ex_status_patch :: "string \<Rightarrow> update_body" where
  "ex_status_patch st = \<lparr>u_scheduledStart = None, u_scheduledEnd = None,
                         u_status = Some st, u_notes = None\<rparr>"

definition ex_full_patch :: update_body where
  "ex_full_patch = \<lparr>u_scheduledStart = Some (hour 13), u_scheduledEnd = Some (hour 15),
                    u_status = Some ''in_progress'', u_notes = Some ''on site''\<rparr>"

text \<open>Create 09:00 to 11:00, cancel it, create 10:00 to 12:00 for the same technician,
  then set the first back to scheduled.\<close>

definition ex_calls :: "call list" where
  "ex_calls =
     [CreateSchedule ex_admin [] (ex_body (hour 9) (hour 11)),
      UpdateSchedule ex_tech 1 (ex_status_patch ''cancelled''),
      CreateSchedule ex_admin [] (ex_body (hour 10) (hour 12)),
      UpdateSchedule ex_tech 1 (ex_status_patch ''scheduled'')]"

text \<open>The same, but the last call is an admin update with a new window, 13:00 to 15:00.\<close>

definition ex_calls_checked :: "call list" where
  "ex_calls_checked =
     [CreateSchedule ex_admin [] (ex_body (hour 9) (hour 11)),
      UpdateSchedule ex_tech 1 (ex_status_patch ''cancelled''),
      CreateSchedule ex_admin [] (ex_body (hour 10) (hour 12)),
      UpdateSchedule ex_admin 1 ex_full_patch]"

text \<open>A second schedule of technician 1, from 11:00 to 13:00, and bodies that move a
  window.\<close>

definition ex_db2 :: db where
  "ex_db2 = ex_db0\<lparr>schedules :=
      [ex_sched, ex_sched\<lparr>sched_id := 2, scheduledStart := hour 11, scheduledEnd := hour 13\<rparr>]\<rparr>"

definition ex_window_patch :: "date option \<Rightarrow> date option \<Rightarrow> update_body" where
  "ex_window_patch s e = \<lparr>u_scheduledStart = s, u_scheduledEnd = e,
                          u_status = None, u_notes = None\<rparr>"

text \<open>A \<^verbatim>\<open>scheduleData\<close> object that carries the required paths of the schema, for
  technician 2 from 09:00 to 11:00.\<close>

definition ex_schedule_data :: schedule_data where
  "ex_schedule_data =
     \<lparr>sd_technician = 2, sd_startTime = hour 9, sd_endTime = hour 11,
      sd_supportRequest = Some 7, sd_scheduledStart = Some (hour 9),
      sd_scheduledEnd = Some (hour 11), sd_createdBy = Some 100, sd_location = None,
      sd_status = None, sd_priority = None, sd_notes = None\<rparr>"

section \<open>Lemmas on the store operations\<close>

lemma find_Some_holds: "find P xs = Some s \<Longrightarrow> P s"
  by (induction xs) (auto split: if_splits)

lemma find_Some_member: "find P xs = Some s \<Longrightarrow> s \<in> set xs"
  by (induction xs) (auto split: if_splits)

lemma Schedule_findById_id: "Schedule_findById ss i = Some s \<Longrightarrow> sched_id s = i"
  unfolding Schedule_findById_def by (rule find_Some_holds)

lemma Schedule_findById_member: "Schedule_findById ss i = Some s \<Longrightarrow> s \<in> set ss"
  unfolding Schedule_findById_def by (rule find_Some_member)

lemma User_findById_id: "User_findById us i = Some u \<Longrightarrow> i = Some (userId u)"
  by (auto simp: User_findById_def split: option.splits dest: find_Some_holds)

lemma SupportRequest_findById_id: "SupportRequest_findById rs i = Some r \<Longrightarrow> i = Some (req_id r)"
  by (auto simp: SupportRequest_findById_def split: option.splits dest: find_Some_holds)

lemma update_first_found_frame:
  "find P xs = Some s \<Longrightarrow> g s' = g s \<Longrightarrow> map g (update_first P (\<lambda>x. s') xs) = map g xs"
  by (induction xs) (auto split: if_splits)

lemma update_first_found_find:
  "find P xs = Some s \<Longrightarrow> P s' \<Longrightarrow> find P (update_first P (\<lambda>x. s') xs) = Some s'"
  by (induction xs) (auto split: if_splits)

lemma save_schedule_frame:
  assumes "Schedule_findById ss i = Some s" and "sched_id s' = sched_id s" and "g s' = g s"
  shows "map g (save_schedule s' ss) = map g ss"
proof -
  have "sched_id s' = i" using assms(1,2) Schedule_findById_id by simp
  then show ?thesis
    using assms update_first_found_frame[of "\<lambda>x. sched_id x = i" ss s g s']
    by (simp add: Schedule_findById_def save_schedule_def)
qed

lemma save_schedule_find:
  assumes "Schedule_findById ss i = Some s" and "sched_id s' = sched_id s"
  shows "Schedule_findById (save_schedule s' ss) i = Some s'"
proof -
  have "sched_id s' = i" using assms Schedule_findById_id by simp
  then show ?thesis
    using assms update_first_found_find[of "\<lambda>x. sched_id x = i" ss s s']
    by (simp add: Schedule_findById_def save_schedule_def)
qed

section \<open>The steps of updateSchedule\<close>

lemma apply_update_technician:
  "userType usr = ''technician'' \<Longrightarrow>
     apply_update d usr i body s =
       Inr (s\<lparr>status := js_or_str (u_status body) (status s),
              sched_notes := js_or (u_notes body) (sched_notes s)\<rparr>)"
  by (simp add: apply_update_def)

lemma apply_update_other:
  "userType usr \<noteq> ''technician'' \<Longrightarrow> apply_update d usr i body s = Inr s' \<Longrightarrow>
     s' = s\<lparr>scheduledStart := date_or (u_scheduledStart body) (scheduledStart s),
            scheduledEnd := date_or (u_scheduledEnd body) (scheduledEnd s),
            status := js_or_str (u_status body) (status s),
            sched_notes := js_or (u_notes body) (sched_notes s)\<rparr>"
  by (auto simp: apply_update_def Let_def split: if_splits)

lemma apply_update_status:
  "apply_update d usr i body s = Inr s' \<Longrightarrow> status s' = js_or_str (u_status body) (status s)"
  by (auto simp: apply_update_def Let_def split: if_splits)

lemma apply_update_frame:
  "apply_update d usr i body s = Inr s' \<Longrightarrow>
     sched_id s' = sched_id s \<and> technician s' = technician s
     \<and> supportRequest s' = supportRequest s \<and> priority s' = priority s
     \<and> location s' = location s \<and> createdBy s' = createdBy s"
  by (auto simp: apply_update_def Let_def split: if_splits)

lemma apply_update_Inl:
  "apply_update d usr i body s = Inl r \<Longrightarrow> \<exists>cs. r = Conflict cs \<and> cs \<noteq> []"
  by (auto simp: apply_update_def Let_def split: if_splits)

lemma cascade_completed_never:
  "status s = js_or_str (u_status body) old \<Longrightarrow> cascade_completed d usr body s = d"
  by (auto simp: cascade_completed_def js_or_str_def)

lemma updateSchedule_cases:
  assumes "updateSchedule d usr i body = (r, d')"
  shows "(\<not> is_Updated r \<and> d' = d)
       \<or> (\<exists>s s'. Schedule_findById (schedules d) i = Some s
              \<and> apply_update d usr i body s = Inr s'
              \<and> (status s' = status s \<or> status s' \<in> set status_enum)
              \<and> r = Updated s' \<and> d' = d\<lparr>schedules := save_schedule s' (schedules d)\<rparr>)"
  using assms
  by (auto simp: updateSchedule_def Let_def cascade_completed_never[OF apply_update_status]
           split: if_splits option.splits sum.splits dest: apply_update_Inl)

lemma updateSchedule_requests:
  "requests (snd (updateSchedule d usr i body)) = requests d"
  using updateSchedule_cases[of d usr i body "fst (updateSchedule d usr i body)"
          "snd (updateSchedule d usr i body)"]
  by auto

lemma updateSchedule_map_frame:
  assumes "\<And>s s'. apply_update d usr i body s = Inr s' \<Longrightarrow> g s' = g s"
  shows "map (\<lambda>x. (sched_id x, g x)) (schedules (snd (updateSchedule d usr i body)))
           = map (\<lambda>x. (sched_id x, g x)) (schedules d)"
proof -
  obtain r d' where rd: "updateSchedule d usr i body = (r, d')"
    by (cases "updateSchedule d usr i body")
  from updateSchedule_cases[OF rd] show ?thesis
  proof
    assume "\<not> is_Updated r \<and> d' = d"
    then show ?thesis using rd by simp
  next
    assume "\<exists>s s'. Schedule_findById (schedules d) i = Some s
              \<and> apply_update d usr i body s = Inr s'
              \<and> (status s' = status s \<or> status s' \<in> set status_enum)
              \<and> r = Updated s' \<and> d' = d\<lparr>schedules := save_schedule s' (schedules d)\<rparr>"
    then obtain s s' where f: "Schedule_findById (schedules d) i = Some s"
      and a: "apply_update d usr i body s = Inr s'"
      and d': "d' = d\<lparr>schedules := save_schedule s' (schedules d)\<rparr>" by blast
    have "sched_id s' = sched_id s" using apply_update_frame[OF a] by simp
    moreover have "g s' = g s" using assms[OF a] .
    ultimately show ?thesis
      using save_schedule_frame[OF f, of s' "\<lambda>x. (sched_id x, g x)"] rd d' by simp
  qed
qed

text \<open>The equations that evaluate the handlers on the example stores.\<close>

lemmas ex_simps = updateSchedule_def apply_update_def Schedule_findById_def ex_db_def ex_db0_def
        ex_sched_def ex_admin_def ex_tech_def ex_full_patch_def date_or_def js_or_str_def js_or_def truthy_def
        conflict_query_def status_enum_def hour_def  cascade_completed_def save_schedule_def

section \<open>Claims on updateSchedule\<close>

text \<open>Claim C10. For every call of the controller's \<^verbatim>\<open>updateSchedule\<close>, by any actor and
  for any body, every stored schedule has after the call the technician it had before:
  the list of pairs of id and technician of the collection is unchanged.\<close>

theorem updateSchedule_keeps_technician:
  "map (\<lambda>x. (sched_id x, technician x)) (schedules (snd (updateSchedule d usr i body)))
     = map (\<lambda>x. (sched_id x, technician x)) (schedules d)"
  by (rule updateSchedule_map_frame) (simp add: apply_update_frame)

theorem updateSchedule_keeps_technician_witness:
  "fst (updateSchedule ex_db ex_admin 1 ex_full_patch)
     = Updated (ex_sched\<lparr>scheduledStart := hour 13, scheduledEnd := hour 15,
                status := ''in_progress'', sched_notes := Some ''on site''\<rparr>)
   \<and> map (\<lambda>x. (sched_id x, technician x)) (schedules (snd (updateSchedule ex_db ex_admin 1 ex_full_patch)))
     = [(1, 1)]"
  using updateSchedule_keeps_technician [of ex_db ex_admin 1 ex_full_patch]
  by (simp add: updateSchedule_def apply_update_def Schedule_findById_def ex_db_def ex_db0_def
        ex_sched_def ex_admin_def ex_full_patch_def date_or_def js_or_str_def js_or_def truthy_def
        conflict_query_def status_enum_def hour_def)

text \<open>Claim C8. When the actor is a technician, every stored schedule keeps its
  \<^verbatim>\<open>scheduledStart\<close>, \<^verbatim>\<open>scheduledEnd\<close>, \<^verbatim>\<open>technician\<close>, \<^verbatim>\<open>priority\<close>, \<^verbatim>\<open>location\<close>,
  \<^verbatim>\<open>createdBy\<close> and \<^verbatim>\<open>supportRequest\<close>, whatever the body contains. A successful update
  stores and answers the schedule it found with, for a technician, only \<^verbatim>\<open>status\<close> and
  \<^verbatim>\<open>notes\<close> replaced by the truthy body values, and for an admin \<^verbatim>\<open>scheduledStart\<close>,
  \<^verbatim>\<open>scheduledEnd\<close>, \<^verbatim>\<open>status\<close> and \<^verbatim>\<open>notes\<close>.\<close>

theorem technician_update_frame:
  "(userType usr = ''technician'' \<longrightarrow>
      map (\<lambda>x. (sched_id x, scheduledStart x, scheduledEnd x, technician x, priority x,
                location x, createdBy x, supportRequest x))
          (schedules (snd (updateSchedule d usr i body)))
      = map (\<lambda>x. (sched_id x, scheduledStart x, scheduledEnd x, technician x, priority x,
                location x, createdBy x, supportRequest x))
          (schedules d))
   \<and> (Schedule_findById (schedules d) i = Some s
       \<and> fst (updateSchedule d usr i body) = Updated s' \<longrightarrow>
        Schedule_findById (schedules (snd (updateSchedule d usr i body))) i = Some s'
        \<and> (userType usr = ''technician'' \<longrightarrow>
             s' = s\<lparr>status := js_or_str (u_status body) (status s),
                    sched_notes := js_or (u_notes body) (sched_notes s)\<rparr>)
        \<and> (userType usr = ''admin'' \<longrightarrow>
             s' = s\<lparr>scheduledStart := date_or (u_scheduledStart body) (scheduledStart s),
                    scheduledEnd := date_or (u_scheduledEnd body) (scheduledEnd s),
                    status := js_or_str (u_status body) (status s),
                    sched_notes := js_or (u_notes body) (sched_notes s)\<rparr>))"
proof (intro conjI impI)
  assume t: "userType usr = ''technician''"
  show "map (\<lambda>x. (sched_id x, scheduledStart x, scheduledEnd x, technician x, priority x,
                location x, createdBy x, supportRequest x))
          (schedules (snd (updateSchedule d usr i body)))
      = map (\<lambda>x. (sched_id x, scheduledStart x, scheduledEnd x, technician x, priority x,
                location x, createdBy x, supportRequest x))
          (schedules d)"
    using updateSchedule_map_frame[of d usr i body "\<lambda>x. (scheduledStart x, scheduledEnd x,
             technician x, priority x, location x, createdBy x, supportRequest x)"]
    by (simp add: apply_update_technician[OF t])
next
  assume h: "Schedule_findById (schedules d) i = Some s
       \<and> fst (updateSchedule d usr i body) = Updated s'"
  obtain r d' where rd: "updateSchedule d usr i body = (r, d')"
    by (cases "updateSchedule d usr i body")
  with h have r: "r = Updated s'" by simp
  from updateSchedule_cases[OF rd] r h
  have a: "apply_update d usr i body s = Inr s'"
    and d': "d' = d\<lparr>schedules := save_schedule s' (schedules d)\<rparr>" by auto
  show "Schedule_findById (schedules (snd (updateSchedule d usr i body))) i = Some s'"
    using save_schedule_find[of "schedules d" i s s'] h apply_update_frame[OF a] rd d' by simp
  { assume "userType usr = ''technician''"
    then show "s' = s\<lparr>status := js_or_str (u_status body) (status s),
                    sched_notes := js_or (u_notes body) (sched_notes s)\<rparr>"
      using a by (simp add: apply_update_technician) }
  { assume "userType usr = ''admin''"
    then have "userType usr \<noteq> ''technician''" by simp
    from apply_update_other[OF this a]
    show "s' = s\<lparr>scheduledStart := date_or (u_scheduledStart body) (scheduledStart s),
                    scheduledEnd := date_or (u_scheduledEnd body) (scheduledEnd s),
                    status := js_or_str (u_status body) (status s),
                    sched_notes := js_or (u_notes body) (sched_notes s)\<rparr>" . }
qed

theorem technician_update_frame_witness:
  "userType ex_tech = ''technician'' \<and> userType ex_admin = ''admin''
   \<and> Schedule_findById (schedules ex_db) 1 = Some ex_sched
   \<and> fst (updateSchedule ex_db ex_tech 1 ex_full_patch)
       = Updated (ex_sched\<lparr>status := ''in_progress'', sched_notes := Some ''on site''\<rparr>)
   \<and> schedules (snd (updateSchedule ex_db ex_tech 1 ex_full_patch))
       = [ex_sched\<lparr>status := ''in_progress'', sched_notes := Some ''on site''\<rparr>]
   \<and> fst (updateSchedule ex_db ex_admin 1 ex_full_patch)
       = Updated (ex_sched\<lparr>scheduledStart := hour 13, scheduledEnd := hour 15,
                   status := ''in_progress'', sched_notes := Some ''on site''\<rparr>)"
  using technician_update_frame [of ex_tech ex_db 1 ex_full_patch ex_sched
          "ex_sched\<lparr>status := ''in_progress'', sched_notes := Some ''on site''\<rparr>"]
        technician_update_frame [of ex_admin ex_db 1 ex_full_patch ex_sched
          "ex_sched\<lparr>scheduledStart := hour 13, scheduledEnd := hour 15,
                   status := ''in_progress'', sched_notes := Some ''on site''\<rparr>"]
  by (simp add: ex_simps)

text \<open>Claim C2. An update that sets the status to completed should set the linked support
  request to resolved and append a history entry. The handler tests
  \<^verbatim>\<open>schedule.status !== 'completed'\<close> after it has assigned the new status, so the cascade
  never runs: an admin completing schedule 1, linked to request 7 with status assigned,
  is answered 200 and the request is left as it was.\<close>

theorem completed_update_leaves_request:
  "supportRequest ex_sched = Some (req_id ex_request)
   \<and> requests ex_db = [ex_request] \<and> req_status ex_request = ''assigned''
   \<and> fst (updateSchedule ex_db ex_admin 1 (ex_status_patch ''completed''))
       = Updated (ex_sched\<lparr>status := ''completed''\<rparr>)
   \<and> requests (snd (updateSchedule ex_db ex_admin 1 (ex_status_patch ''completed'')))
       = [ex_request]"
  by (simp add: ex_simps ex_status_patch_def ex_request_def)

section \<open>The steps of createSchedule\<close>

lemma createSchedule_cases:
  assumes "createSchedule d usr errors body = (r, d')"
  shows "(\<not> is_Created r \<and> d' = d)
       \<or> (\<exists>tech sr s. userType usr = ''admin'' \<and> errors = []
             \<and> User_findById (users d) (c_technicianId body) = Some tech
             \<and> userType tech = ''technician''
             \<and> SupportRequest_findById (requests d) (c_supportRequestId body) = Some sr
             \<and> conflict_query (schedules d) None (userId tech)
                  (c_scheduledStart body) (c_scheduledEnd body) = []
             \<and> sched_id s = new_ObjectId (schedules d) \<and> technician s = userId tech
             \<and> supportRequest s = Some (req_id sr)
             \<and> scheduledStart s = c_scheduledStart body \<and> scheduledEnd s = c_scheduledEnd body
             \<and> status s = ''scheduled''
             \<and> priority s = schedule_priority (c_priority body) (req_priority sr)
             \<and> priority s \<in> set priority_enum
             \<and> r = Created (sched_id s)
             \<and> schedules d' = schedules d @ [s] \<and> users d' = users d)"
  using assms
  by (auto simp: createSchedule_def Let_def split: if_splits option.splits)

section \<open>Double-booking\<close>

lemma conflict_free_iff:
  "conflict_free ss \<longleftrightarrow> (\<forall>a\<in>set ss. \<forall>b\<in>set ss. \<not> double_booked a b)"
  by (auto simp: conflict_free_def list_ex_iff)

lemma double_booked_sym: "double_booked a b \<Longrightarrow> double_booked b a"
  by (auto simp: double_booked_def overlaps_def)

lemma foldr_max_ge: "x \<in> set xs \<Longrightarrow> x \<le> foldr max xs (0::nat)"
  by (induction xs) auto

lemma new_ObjectId_fresh: "x \<in> set ss \<Longrightarrow> sched_id x \<noteq> new_ObjectId ss"
  using foldr_max_ge[of "sched_id x" "map sched_id ss"] by (auto simp: new_ObjectId_def)

lemma conflict_query_empty:
  assumes "conflict_query ss ex (technician s) (scheduledStart s) (scheduledEnd s) = []"
    and "x \<in> set ss" and "ex = None \<or> ex = Some (sched_id s)"
  shows "\<not> double_booked s x"
proof
  assume db: "double_booked s x"
  then have "x \<in> set (conflict_query ss ex (technician s) (scheduledStart s) (scheduledEnd s))"
    using assms(2,3) by (auto simp: conflict_query_def double_booked_def overlaps_def)
  with assms(1) show False by simp
qed

lemma conflict_free_append:
  assumes cf: "conflict_free ss" and one: "\<And>x. x \<in> set ss \<Longrightarrow> \<not> double_booked s x"
  shows "conflict_free (ss @ [s])"
proof -
  have self: "\<not> double_booked s s" by (simp add: double_booked_def)
  show ?thesis unfolding conflict_free_iff
  proof (intro ballI)
    fix a b assume "a \<in> set (ss @ [s])" "b \<in> set (ss @ [s])"
    then have "a = s \<or> a \<in> set ss" "b = s \<or> b \<in> set ss" by auto
    then show "\<not> double_booked a b"
      using self one cf double_booked_sym unfolding conflict_free_iff by blast
  qed
qed

lemma createSchedule_conflict_free:
  assumes c: "createSchedule d usr errors body = (r, d')" and cf: "conflict_free (schedules d)"
  shows "conflict_free (schedules d')"
  using createSchedule_cases[OF c]
proof (elim disjE exE conjE)
  assume "d' = d" then show ?thesis using cf by simp
next
  fix tech sr s
  assume q: "conflict_query (schedules d) None (userId tech)
                  (c_scheduledStart body) (c_scheduledEnd body) = []"
    and s: "technician s = userId tech" "scheduledStart s = c_scheduledStart body"
           "scheduledEnd s = c_scheduledEnd body"
    and d': "schedules d' = schedules d @ [s]"
  have "\<not> double_booked s x" if "x \<in> set (schedules d)" for x
    using conflict_query_empty[of "schedules d" None s x] q s that by simp
  then show ?thesis unfolding d' by (rule conflict_free_append[OF cf])
qed

lemma update_first_const_set:
  "set (update_first P (\<lambda>x. s') xs) \<subseteq> insert s' (set xs)"
  by (induction xs) auto

lemma conflict_free_save:
  assumes cf: "conflict_free ss" and "sched_id s' = i"
    and safe: "\<And>x. x \<in> set ss \<Longrightarrow> sched_id x \<noteq> i \<Longrightarrow> \<not> double_booked s' x"
  shows "conflict_free (save_schedule s' ss)"
proof -
  have sub: "set (save_schedule s' ss) \<subseteq> insert s' (set ss)"
    unfolding save_schedule_def by (rule update_first_const_set)
  have self: "\<not> double_booked s' s'" by (simp add: double_booked_def)
  have one: "\<not> double_booked s' x" if "x \<in> set ss" for x
  proof (cases "sched_id x = i")
    case True then show ?thesis using assms(2) by (simp add: double_booked_def)
  next
    case False then show ?thesis using safe that by simp
  qed
  show ?thesis unfolding conflict_free_iff
  proof (intro ballI)
    fix a b assume "a \<in> set (save_schedule s' ss)" "b \<in> set (save_schedule s' ss)"
    then have "a = s' \<or> a \<in> set ss" "b = s' \<or> b \<in> set ss" using sub by auto
    then show "\<not> double_booked a b"
      using self one cf double_booked_sym unfolding conflict_free_iff by blast
  qed
qed

lemma date_or_idem: "date_or v (date_or v old) = date_or v old"
  by (simp add: date_or_def split: option.splits)

lemma date_or_None: "date_or None old = old"
  by (simp add: date_or_def)

lemma apply_update_checked:
  assumes "apply_update d usr i body s = Inr s'"
  shows "(scheduledStart s' = scheduledStart s \<and> scheduledEnd s' = scheduledEnd s
          \<and> (userType usr = ''technician''
              \<or> (u_scheduledStart body = None \<and> u_scheduledEnd body = None)))
       \<or> conflict_query (schedules d) (Some i) (technician s')
            (scheduledStart s') (scheduledEnd s') = []"
  using assms
  by (auto simp: apply_update_def Let_def date_or_idem date_or_None split: if_splits)

lemma updateSchedule_conflict_free:
  assumes u: "updateSchedule d usr i body = (r, d')" and cf: "conflict_free (schedules d)"
    and nr: "\<not> revives d (UpdateSchedule usr i body)"
  shows "conflict_free (schedules d')"
proof -
  from updateSchedule_cases[OF u] show ?thesis
  proof
    assume "\<not> is_Updated r \<and> d' = d" then show ?thesis using cf by simp
  next
    assume "\<exists>s s'. Schedule_findById (schedules d) i = Some s
              \<and> apply_update d usr i body s = Inr s'
              \<and> (status s' = status s \<or> status s' \<in> set status_enum)
              \<and> r = Updated s' \<and> d' = d\<lparr>schedules := save_schedule s' (schedules d)\<rparr>"
    then obtain s s' where f: "Schedule_findById (schedules d) i = Some s"
      and a: "apply_update d usr i body s = Inr s'"
      and d': "d' = d\<lparr>schedules := save_schedule s' (schedules d)\<rparr>" by blast
    have id: "sched_id s' = i" "sched_id s = i"
      using apply_update_frame[OF a] Schedule_findById_id[OF f] by simp_all
    have tech: "technician s' = technician s" using apply_update_frame[OF a] by simp
    have st: "status s' = js_or_str (u_status body) (status s)" by (rule apply_update_status[OF a])
    have mem: "s \<in> set (schedules d)" by (rule Schedule_findById_member[OF f])
    have "\<not> double_booked s' x" if x: "x \<in> set (schedules d)" and ne: "sched_id x \<noteq> i" for x
      using apply_update_checked[OF a]
    proof
      assume same: "scheduledStart s' = scheduledStart s \<and> scheduledEnd s' = scheduledEnd s
          \<and> (userType usr = ''technician''
              \<or> (u_scheduledStart body = None \<and> u_scheduledEnd body = None))"
      have "nin_terminal (status s') \<Longrightarrow> nin_terminal (status s)"
        using nr f st same by auto
      then have "double_booked s' x \<Longrightarrow> double_booked s x"
        using same tech id by (auto simp: double_booked_def overlaps_def)
      moreover have "\<not> double_booked s x" using cf mem x unfolding conflict_free_iff by blast
      ultimately show ?thesis by blast
    next
      assume "conflict_query (schedules d) (Some i) (technician s')
            (scheduledStart s') (scheduledEnd s') = []"
      from conflict_query_empty[OF this x] id show ?thesis by simp
    qed
    then have "conflict_free (save_schedule s' (schedules d))"
      using conflict_free_save[OF cf id(1)] by blast
    then show ?thesis using d' by simp
  qed
qed

lemma perform_conflict_free:
  assumes "conflict_free (schedules d)" and "\<not> revives d c"
  shows "conflict_free (schedules (snd (perform d c)))"
proof (cases c)
  case (CreateSchedule usr errors body)
  then show ?thesis
    using createSchedule_conflict_free[of d usr errors body
            "fst (createSchedule d usr errors body)" "snd (createSchedule d usr errors body)"]
          assms by simp
next
  case (UpdateSchedule usr i body)
  then show ?thesis
    using updateSchedule_conflict_free[of d usr i body
            "fst (updateSchedule d usr i body)" "snd (updateSchedule d usr i body)"]
          assms by simp
qed

text \<open>The ids of the collection stay pairwise different, so that two different schedules
  are two schedules with different ids.\<close>

lemma perform_distinct_ids:
  assumes "distinct (map sched_id (schedules d))"
  shows "distinct (map sched_id (schedules (snd (perform d c))))"
proof (cases c)
  case (CreateSchedule usr errors body)
  obtain r d' where rd: "createSchedule d usr errors body = (r, d')"
    by (cases "createSchedule d usr errors body")
  from createSchedule_cases[OF rd] have "distinct (map sched_id (schedules d'))"
  proof (elim disjE exE conjE)
    assume "d' = d" then show ?thesis using assms by simp
  next
    fix tech sr s
    assume "sched_id s = new_ObjectId (schedules d)" "schedules d' = schedules d @ [s]"
    moreover have "sched_id s \<notin> sched_id ` set (schedules d)"
      using new_ObjectId_fresh[of _ "schedules d"] \<open>sched_id s = new_ObjectId (schedules d)\<close>
      by force
    ultimately show ?thesis using assms by simp
  qed
  then show ?thesis using CreateSchedule rd by simp
next
  case (UpdateSchedule usr i body)
  have "map fst (map (\<lambda>x. (sched_id x, technician x)) (schedules (snd (updateSchedule d usr i body))))
      = map fst (map (\<lambda>x. (sched_id x, technician x)) (schedules d))"
    using updateSchedule_map_frame[of d usr i body technician] apply_update_frame by simp
  then have "map sched_id (schedules (snd (updateSchedule d usr i body))) = map sched_id (schedules d)"
    by (simp add: comp_def)
  then show ?thesis using UpdateSchedule assms by simp
qed

text \<open>Claim C1, as the handlers keep it. From a store without double-booking, every
  sequence of successful \<^verbatim>\<open>createSchedule\<close> and \<^verbatim>\<open>updateSchedule\<close> calls leads to a store
  without double-booking, provided no call takes a schedule from completed or cancelled
  back to another status without a conflict query (a technician's update, or an admin's
  update without \<^verbatim>\<open>scheduledStart\<close> and \<^verbatim>\<open>scheduledEnd\<close>).\<close>

theorem no_double_booking_without_revival:
  "conflict_free (schedules d) \<Longrightarrow> all_succeed d cs \<Longrightarrow> no_revival d cs \<Longrightarrow>
     conflict_free (schedules (run d cs))"
proof (induction cs arbitrary: d)
  case Nil
  then show ?case by simp
next
  case (Cons c cs)
  have "conflict_free (schedules (snd (perform d c)))"
    using perform_conflict_free Cons.prems by simp
  then show ?case using Cons by simp
qed

theorem no_double_booking_without_revival_witness:
  "conflict_free (schedules ex_db0) \<and> all_succeed ex_db0 ex_calls_checked
   \<and> no_revival ex_db0 ex_calls_checked
   \<and> conflict_free (schedules (run ex_db0 ex_calls_checked))"
proof -
  have h1: "conflict_free (schedules ex_db0)" by code_simp
  have h2: "all_succeed ex_db0 ex_calls_checked" by code_simp
  have h3: "no_revival ex_db0 ex_calls_checked" by code_simp
  from no_double_booking_without_revival[OF h1 h2 h3] h1 h2 h3 show ?thesis by simp
qed

text \<open>Counterexample to C1 as stated: on an empty schedule collection, create 09:00 to 11:00
  for technician 1, cancel it, create 10:00 to 12:00 for the same technician, then set the
  first back to scheduled with a status-only update. All four calls succeed and the two
  schedules overlap, both with status scheduled.\<close>

theorem double_booking_after_revival:
  "conflict_free (schedules ex_db0) \<and> all_succeed ex_db0 ex_calls
   \<and> \<not> conflict_free (schedules (run ex_db0 ex_calls))"
  by code_simp

section \<open>Claims on createSchedule\<close>

text \<open>The equations that evaluate \<^verbatim>\<open>createSchedule\<close> on the example stores.\<close>

lemmas ex_create_simps = createSchedule_def User_findById_def SupportRequest_findById_def
  conflict_query_def schedule_priority_def js_or_def truthy_def priority_enum_def new_ObjectId_def
  nin_terminal_def save_request_def ex_db_def ex_db0_def ex_sched_def ex_admin_def ex_tech_def
  ex_tech2_def ex_request_def ex_body_def hour_def

lemma createSchedule_accepts:
  assumes "userType usr = ''admin''" and "errors = []"
    and "User_findById (users d) (c_technicianId body) = Some tech"
    and "userType tech = ''technician''"
    and "SupportRequest_findById (requests d) (c_supportRequestId body) = Some sr"
    and "schedule_priority (c_priority body) (req_priority sr) \<in> set priority_enum"
    and "conflict_query (schedules d) None (userId tech)
           (c_scheduledStart body) (c_scheduledEnd body) = []"
  shows "fst (createSchedule d usr errors body) = Created (new_ObjectId (schedules d))
       \<and> schedules (snd (createSchedule d usr errors body)) = schedules d @
           [\<lparr> sched_id = new_ObjectId (schedules d), technician = userId tech,
              supportRequest = Some (req_id sr),
              scheduledStart = c_scheduledStart body, scheduledEnd = c_scheduledEnd body,
              status = ''scheduled'', sched_notes = c_notes body,
              priority = schedule_priority (c_priority body) (req_priority sr),
              location = c_location body, createdBy = Some (userId usr) \<rparr>]"
  using assms by (simp add: createSchedule_def Let_def)

lemma createSchedule_conflict:
  assumes "userType usr = ''admin''" and "errors = []"
    and "User_findById (users d) (c_technicianId body) = Some tech"
    and "userType tech = ''technician''"
    and "SupportRequest_findById (requests d) (c_supportRequestId body) = Some sr"
    and "conflict_query (schedules d) None (userId tech)
           (c_scheduledStart body) (c_scheduledEnd body) \<noteq> []"
  shows "createSchedule d usr errors body =
           (Conflict (conflict_query (schedules d) None (userId tech)
              (c_scheduledStart body) (c_scheduledEnd body)), d)"
  using assms by (simp add: createSchedule_def Let_def)

lemma createSchedule_failure_keeps_store:
  "\<not> is_Created (fst (createSchedule d usr errors body)) \<Longrightarrow>
     snd (createSchedule d usr errors body) = d"
  using createSchedule_cases[of d usr errors body "fst (createSchedule d usr errors body)"
          "snd (createSchedule d usr errors body)"]
  by auto

text \<open>Claim C3, as the handler behaves. \<^verbatim>\<open>createSchedule\<close> does not compare
  \<^verbatim>\<open>scheduledStart\<close> with \<^verbatim>\<open>scheduledEnd\<close>. A request by an admin with no validator
  errors, an existing technician, an existing support request, a priority of the
  enumeration and an empty conflict query is answered 201 and its schedule is stored with
  the window as given, whatever the order of the two instants. Whenever the answer is not
  201 the store is unchanged.\<close>

theorem createSchedule_window_unchecked:
  "(\<not> is_Created (fst (createSchedule d usr errors body)) \<longrightarrow>
       snd (createSchedule d usr errors body) = d)
   \<and> (userType usr = ''admin'' \<and> errors = []
       \<and> User_findById (users d) (c_technicianId body) = Some tech
       \<and> userType tech = ''technician''
       \<and> SupportRequest_findById (requests d) (c_supportRequestId body) = Some sr
       \<and> schedule_priority (c_priority body) (req_priority sr) \<in> set priority_enum
       \<and> conflict_query (schedules d) None (userId tech)
            (c_scheduledStart body) (c_scheduledEnd body) = []
      \<longrightarrow> http_status (fst (createSchedule d usr errors body)) = 201
          \<and> (\<exists>s. schedules (snd (createSchedule d usr errors body)) = schedules d @ [s]
                 \<and> fst (createSchedule d usr errors body) = Created (sched_id s)
                 \<and> technician s = userId tech
                 \<and> scheduledStart s = c_scheduledStart body
                 \<and> scheduledEnd s = c_scheduledEnd body))"
proof (intro conjI impI)
  assume "\<not> is_Created (fst (createSchedule d usr errors body))"
  then show "snd (createSchedule d usr errors body) = d"
    by (rule createSchedule_failure_keeps_store)
next
  assume h: "userType usr = ''admin'' \<and> errors = []
       \<and> User_findById (users d) (c_technicianId body) = Some tech
       \<and> userType tech = ''technician''
       \<and> SupportRequest_findById (requests d) (c_supportRequestId body) = Some sr
       \<and> schedule_priority (c_priority body) (req_priority sr) \<in> set priority_enum
       \<and> conflict_query (schedules d) None (userId tech)
            (c_scheduledStart body) (c_scheduledEnd body) = []"
  then have a: "fst (createSchedule d usr errors body) = Created (new_ObjectId (schedules d))
       \<and> schedules (snd (createSchedule d usr errors body)) = schedules d @
           [\<lparr> sched_id = new_ObjectId (schedules d), technician = userId tech,
              supportRequest = Some (req_id sr),
              scheduledStart = c_scheduledStart body, scheduledEnd = c_scheduledEnd body,
              status = ''scheduled'', sched_notes = c_notes body,
              priority = schedule_priority (c_priority body) (req_priority sr),
              location = c_location body, createdBy = Some (userId usr) \<rparr>]"
    using createSchedule_accepts[of usr errors d body tech sr] by blast
  then show "http_status (fst (createSchedule d usr errors body)) = 201" by simp
  from a show "\<exists>s. schedules (snd (createSchedule d usr errors body)) = schedules d @ [s]
                 \<and> fst (createSchedule d usr errors body) = Created (sched_id s)
                 \<and> technician s = userId tech
                 \<and> scheduledStart s = c_scheduledStart body
                 \<and> scheduledEnd s = c_scheduledEnd body" by simp
qed

theorem createSchedule_window_unchecked_witness:
  "c_scheduledStart (ex_body (hour 12) (hour 10)) \<ge> c_scheduledEnd (ex_body (hour 12) (hour 10))
   \<and> http_status (fst (createSchedule ex_db ex_admin [] (ex_body (hour 12) (hour 10)))) = 201
   \<and> map sched_id (schedules (snd (createSchedule ex_db ex_admin [] (ex_body (hour 12) (hour 10))))) = [1, 2]
   \<and> is_Created (fst (createSchedule ex_db ex_admin [] (ex_body (hour 12) (hour 10))))"
  using createSchedule_window_unchecked [of ex_db ex_admin "[]" "ex_body (hour 12) (hour 10)" ex_tech ex_request]
  by (auto simp add: ex_create_simps)

text \<open>Counterexample to C3 as stated: a window from 12:00 to 12:00 is answered 201 and
  stored.\<close>

theorem createSchedule_accepts_empty_window:
  "c_scheduledStart (ex_body (hour 12) (hour 12)) \<ge> c_scheduledEnd (ex_body (hour 12) (hour 12))
   \<and> fst (createSchedule ex_db0 ex_admin [] (ex_body (hour 12) (hour 12))) = Created 1
   \<and> http_status (fst (createSchedule ex_db0 ex_admin [] (ex_body (hour 12) (hour 12)))) = 201
   \<and> schedules (snd (createSchedule ex_db0 ex_admin [] (ex_body (hour 12) (hour 12))))
       = [\<lparr>sched_id = 1, technician = 1, supportRequest = Some 7,
            scheduledStart = hour 12, scheduledEnd = hour 12, status = ''scheduled'',
            sched_notes = None, priority = ''high'', location = None, createdBy = Some 100\<rparr>]"
  by (simp add: ex_create_simps)

text \<open>Claim C9, as the handler behaves. The support request is required: when
  \<^verbatim>\<open>SupportRequest.findById(supportRequestId)\<close> finds nothing, which is the case for an
  absent id, an otherwise valid request is answered 400 \<^verbatim>\<open>Invalid support request\<close> and
  nothing is stored; every schedule that \<^verbatim>\<open>createSchedule\<close> stores is linked to the support
  request it found.\<close>

theorem createSchedule_requires_support_request:
  "(userType usr = ''admin'' \<and> errors = []
      \<and> User_findById (users d) (c_technicianId body) = Some tech
      \<and> userType tech = ''technician''
      \<and> SupportRequest_findById (requests d) (c_supportRequestId body) = None
     \<longrightarrow> createSchedule d usr errors body = (Json 400 ''Invalid support request'', d))
   \<and> SupportRequest_findById (requests d) None = None
   \<and> (is_Created (fst (createSchedule d usr errors body)) \<longrightarrow>
        (\<exists>s sr. schedules (snd (createSchedule d usr errors body)) = schedules d @ [s]
           \<and> SupportRequest_findById (requests d) (c_supportRequestId body) = Some sr
           \<and> supportRequest s = Some (req_id sr)))"
proof (intro conjI impI)
  assume "userType usr = ''admin'' \<and> errors = []
      \<and> User_findById (users d) (c_technicianId body) = Some tech
      \<and> userType tech = ''technician''
      \<and> SupportRequest_findById (requests d) (c_supportRequestId body) = None"
  then show "createSchedule d usr errors body = (Json 400 ''Invalid support request'', d)"
    by (simp add: createSchedule_def)
next
  show "SupportRequest_findById (requests d) None = None"
    by (simp add: SupportRequest_findById_def)
next
  assume c: "is_Created (fst (createSchedule d usr errors body))"
  obtain r d' where rd: "createSchedule d usr errors body = (r, d')"
    by (cases "createSchedule d usr errors body")
  from createSchedule_cases[OF rd] c rd
  show "\<exists>s sr. schedules (snd (createSchedule d usr errors body)) = schedules d @ [s]
           \<and> SupportRequest_findById (requests d) (c_supportRequestId body) = Some sr
           \<and> supportRequest s = Some (req_id sr)"
    by auto
qed

theorem createSchedule_requires_support_request_witness:
  "createSchedule ex_db ex_admin [] ((ex_body (hour 12) (hour 13))\<lparr>c_supportRequestId := Some 8\<rparr>)
     = (Json 400 ''Invalid support request'', ex_db)
   \<and> is_Created (fst (createSchedule ex_db ex_admin [] (ex_body (hour 12) (hour 13))))
   \<and> map supportRequest (schedules (snd (createSchedule ex_db ex_admin [] (ex_body (hour 12) (hour 13)))))
       = [Some 7, Some 7]"
  using createSchedule_requires_support_request [of ex_admin "[]" ex_db
          "(ex_body (hour 12) (hour 13))\<lparr>c_supportRequestId := Some 8\<rparr>" ex_tech]
        createSchedule_requires_support_request [of ex_admin "[]" ex_db
          "ex_body (hour 12) (hour 13)" ex_tech]
  by (auto simp add: ex_create_simps)

text \<open>Counterexample to C9 as stated: a valid technician, a free window and no support
  request.\<close>

theorem createSchedule_without_support_request:
  "User_findById (users ex_db0) (Some 1) = Some ex_tech \<and> userType ex_tech = ''technician''
   \<and> conflict_query (schedules ex_db0) None 1 (hour 12) (hour 13) = []
   \<and> createSchedule ex_db0 ex_admin []
        \<lparr>c_technicianId = Some 1, c_supportRequestId = None,
          c_scheduledStart = hour 12, c_scheduledEnd = hour 13, c_notes = None,
          c_priority = None, c_location = None\<rparr>
     = (Json 400 ''Invalid support request'', ex_db0)"
  by (simp add: ex_create_simps)

section \<open>The conflict query decides\<close>

lemma createSchedule_accepts_store:
  assumes "userType usr = ''admin''" and "errors = []"
    and "User_findById (users d) (c_technicianId body) = Some tech"
    and "userType tech = ''technician''"
    and "SupportRequest_findById (requests d) (c_supportRequestId body) = Some sr"
    and "schedule_priority (c_priority body) (req_priority sr) \<in> set priority_enum"
    and "conflict_query (schedules d) None (userId tech)
           (c_scheduledStart body) (c_scheduledEnd body) = []"
  shows "createSchedule d usr errors body =
     (Created (new_ObjectId (schedules d)),
      d\<lparr>schedules := schedules d @
           [\<lparr> sched_id = new_ObjectId (schedules d), technician = userId tech,
              supportRequest = Some (req_id sr),
              scheduledStart = c_scheduledStart body, scheduledEnd = c_scheduledEnd body,
              status = ''scheduled'', sched_notes = c_notes body,
              priority = schedule_priority (c_priority body) (req_priority sr),
              location = c_location body, createdBy = Some (userId usr) \<rparr>],
         requests :=
           (if req_status sr = ''new''
            then save_request
                   (sr\<lparr>req_status := ''assigned'', assignedTo := Some (userId tech),
                       history := history sr @
                         [\<lparr>action = ''assigned'', performedBy = userId usr,
                           details = ''Request assigned to technician''\<rparr>]\<rparr>)
                   (requests d)
            else requests d)\<rparr>)"
  using assms by (simp add: createSchedule_def Let_def)

lemma updateSchedule_conflict:
  assumes "userType usr = ''admin''"
    and "Schedule_findById (schedules d) i = Some s"
    and "u_scheduledStart ub \<noteq> None \<or> u_scheduledEnd ub \<noteq> None"
    and "conflict_query (schedules d) (Some i) (technician s)
           (date_or (u_scheduledStart ub) (scheduledStart s))
           (date_or (u_scheduledEnd ub) (scheduledEnd s)) \<noteq> []"
  shows "updateSchedule d usr i ub =
           (Conflict (conflict_query (schedules d) (Some i) (technician s)
              (date_or (u_scheduledStart ub) (scheduledStart s))
              (date_or (u_scheduledEnd ub) (scheduledEnd s))), d)"
  using assms by (auto simp: updateSchedule_def apply_update_def Let_def date_or_idem)

lemma updateSchedule_accepts_store:
  assumes "userType usr = ''admin''"
    and "Schedule_findById (schedules d) i = Some s"
    and "u_scheduledStart ub \<noteq> None \<or> u_scheduledEnd ub \<noteq> None"
    and "js_or_str (u_status ub) (status s) = status s
         \<or> js_or_str (u_status ub) (status s) \<in> set status_enum"
    and "conflict_query (schedules d) (Some i) (technician s)
           (date_or (u_scheduledStart ub) (scheduledStart s))
           (date_or (u_scheduledEnd ub) (scheduledEnd s)) = []"
  shows "updateSchedule d usr i ub =
     (Updated (s\<lparr>scheduledStart := date_or (u_scheduledStart ub) (scheduledStart s),
                 scheduledEnd := date_or (u_scheduledEnd ub) (scheduledEnd s),
                 status := js_or_str (u_status ub) (status s),
                 sched_notes := js_or (u_notes ub) (sched_notes s)\<rparr>),
      d\<lparr>schedules := save_schedule
           (s\<lparr>scheduledStart := date_or (u_scheduledStart ub) (scheduledStart s),
              scheduledEnd := date_or (u_scheduledEnd ub) (scheduledEnd s),
              status := js_or_str (u_status ub) (status s),
              sched_notes := js_or (u_notes ub) (sched_notes s)\<rparr>)
           (schedules d)\<rparr>)"
proof -
  have c: "cascade_completed d' usr ub
             (s\<lparr>scheduledStart := date_or (u_scheduledStart ub) (scheduledStart s),
                scheduledEnd := date_or (u_scheduledEnd ub) (scheduledEnd s),
                status := js_or_str (u_status ub) (status s),
                sched_notes := js_or (u_notes ub) (sched_notes s)\<rparr>) = d'" for d'
    by (rule cascade_completed_never[where old = "status s"]) simp
  show ?thesis
    using assms by (auto simp: updateSchedule_def apply_update_def Let_def date_or_idem c)
qed

text \<open>Claim C5. For an admin, no validator errors, an existing technician, an existing
  support request and a priority of the enumeration, \<^verbatim>\<open>createSchedule\<close> succeeds exactly
  when the conflict query for that technician and window is empty. It then answers 201
  with the new id and the store holds the new schedule with that technician and window
  (and the request set to assigned if it was new); otherwise it answers 400 with the
  conflicting schedules and leaves the store unchanged. For an admin update of an existing
  schedule whose body carries \<^verbatim>\<open>scheduledStart\<close> or \<^verbatim>\<open>scheduledEnd\<close> (the only updates that
  change a window) and whose status passes the enumeration, the same holds with the query
  excluding the schedule's own id: on success the answer is 200 with the modified schedule,
  which is the one stored under the id; on conflict the store is unchanged.\<close>

theorem conflict_query_decides:
  "(userType usr = ''admin'' \<and> errors = []
      \<and> User_findById (users d) (c_technicianId body) = Some tech
      \<and> userType tech = ''technician''
      \<and> SupportRequest_findById (requests d) (c_supportRequestId body) = Some sr
      \<and> schedule_priority (c_priority body) (req_priority sr) \<in> set priority_enum
     \<longrightarrow> (is_Created (fst (createSchedule d usr errors body))
            \<longleftrightarrow> conflict_query (schedules d) None (userId tech)
                  (c_scheduledStart body) (c_scheduledEnd body) = [])
        \<and> (conflict_query (schedules d) None (userId tech)
              (c_scheduledStart body) (c_scheduledEnd body) = []
            \<longrightarrow> createSchedule d usr errors body =
                 (Created (new_ObjectId (schedules d)),
                  d\<lparr>schedules := schedules d @
                       [\<lparr> sched_id = new_ObjectId (schedules d), technician = userId tech,
                          supportRequest = Some (req_id sr),
                          scheduledStart = c_scheduledStart body,
                          scheduledEnd = c_scheduledEnd body,
                          status = ''scheduled'', sched_notes = c_notes body,
                          priority = schedule_priority (c_priority body) (req_priority sr),
                          location = c_location body, createdBy = Some (userId usr) \<rparr>],
                     requests :=
                       (if req_status sr = ''new''
                        then save_request
                               (sr\<lparr>req_status := ''assigned'', assignedTo := Some (userId tech),
                                   history := history sr @
                                     [\<lparr>action = ''assigned'', performedBy = userId usr,
                                       details = ''Request assigned to technician''\<rparr>]\<rparr>)
                               (requests d)
                        else requests d)\<rparr>))
        \<and> (conflict_query (schedules d) None (userId tech)
              (c_scheduledStart body) (c_scheduledEnd body) \<noteq> []
            \<longrightarrow> createSchedule d usr errors body =
                  (Conflict (conflict_query (schedules d) None (userId tech)
                     (c_scheduledStart body) (c_scheduledEnd body)), d)))
   \<and> (userType usr = ''admin''
      \<and> Schedule_findById (schedules d) i = Some s
      \<and> (u_scheduledStart ub \<noteq> None \<or> u_scheduledEnd ub \<noteq> None)
      \<and> (js_or_str (u_status ub) (status s) = status s
          \<or> js_or_str (u_status ub) (status s) \<in> set status_enum)
     \<longrightarrow> (is_Updated (fst (updateSchedule d usr i ub))
            \<longleftrightarrow> conflict_query (schedules d) (Some i) (technician s)
                  (date_or (u_scheduledStart ub) (scheduledStart s))
                  (date_or (u_scheduledEnd ub) (scheduledEnd s)) = [])
        \<and> (conflict_query (schedules d) (Some i) (technician s)
              (date_or (u_scheduledStart ub) (scheduledStart s))
              (date_or (u_scheduledEnd ub) (scheduledEnd s)) = []
            \<longrightarrow> updateSchedule d usr i ub =
                 (Updated (s\<lparr>scheduledStart := date_or (u_scheduledStart ub) (scheduledStart s),
                             scheduledEnd := date_or (u_scheduledEnd ub) (scheduledEnd s),
                             status := js_or_str (u_status ub) (status s),
                             sched_notes := js_or (u_notes ub) (sched_notes s)\<rparr>),
                  d\<lparr>schedules := save_schedule
                       (s\<lparr>scheduledStart := date_or (u_scheduledStart ub) (scheduledStart s),
                          scheduledEnd := date_or (u_scheduledEnd ub) (scheduledEnd s),
                          status := js_or_str (u_status ub) (status s),
                          sched_notes := js_or (u_notes ub) (sched_notes s)\<rparr>)
                       (schedules d)\<rparr>)
               \<and> Schedule_findById (schedules (snd (updateSchedule d usr i ub))) i =
                   Some (s\<lparr>scheduledStart := date_or (u_scheduledStart ub) (scheduledStart s),
                           scheduledEnd := date_or (u_scheduledEnd ub) (scheduledEnd s),
                           status := js_or_str (u_status ub) (status s),
                           sched_notes := js_or (u_notes ub) (sched_notes s)\<rparr>))
        \<and> (conflict_query (schedules d) (Some i) (technician s)
              (date_or (u_scheduledStart ub) (scheduledStart s))
              (date_or (u_scheduledEnd ub) (scheduledEnd s)) \<noteq> []
            \<longrightarrow> updateSchedule d usr i ub =
                  (Conflict (conflict_query (schedules d) (Some i) (technician s)
                     (date_or (u_scheduledStart ub) (scheduledStart s))
                     (date_or (u_scheduledEnd ub) (scheduledEnd s))), d)))
   \<and> http_status (Conflict cs) = 400 \<and> http_status (Created j) = 201
   \<and> http_status (Updated x) = 200"
proof (intro conjI impI)
  assume h: "userType usr = ''admin'' \<and> errors = []
      \<and> User_findById (users d) (c_technicianId body) = Some tech
      \<and> userType tech = ''technician''
      \<and> SupportRequest_findById (requests d) (c_supportRequestId body) = Some sr
      \<and> schedule_priority (c_priority body) (req_priority sr) \<in> set priority_enum"
  show "is_Created (fst (createSchedule d usr errors body))
            \<longleftrightarrow> conflict_query (schedules d) None (userId tech)
                  (c_scheduledStart body) (c_scheduledEnd body) = []"
    using h createSchedule_accepts_store[of usr errors d body tech sr]
      createSchedule_conflict[of usr errors d body tech sr]
    by (cases "conflict_query (schedules d) None (userId tech)
                  (c_scheduledStart body) (c_scheduledEnd body) = []") auto
  { assume "conflict_query (schedules d) None (userId tech)
              (c_scheduledStart body) (c_scheduledEnd body) = []"
    then show "createSchedule d usr errors body =
                 (Created (new_ObjectId (schedules d)),
                  d\<lparr>schedules := schedules d @
                       [\<lparr> sched_id = new_ObjectId (schedules d), technician = userId tech,
                          supportRequest = Some (req_id sr),
                          scheduledStart = c_scheduledStart body,
                          scheduledEnd = c_scheduledEnd body,
                          status = ''scheduled'', sched_notes = c_notes body,
                          priority = schedule_priority (c_priority body) (req_priority sr),
                          location = c_location body, createdBy = Some (userId usr) \<rparr>],
                     requests :=
                       (if req_status sr = ''new''
                        then save_request
                               (sr\<lparr>req_status := ''assigned'', assignedTo := Some (userId tech),
                                   history := history sr @
                                     [\<lparr>action = ''assigned'', performedBy = userId usr,
                                       details = ''Request assigned to technician''\<rparr>]\<rparr>)
                               (requests d)
                        else requests d)\<rparr>)"
      using h createSchedule_accepts_store[of usr errors d body tech sr] by blast }
  { assume "conflict_query (schedules d) None (userId tech)
              (c_scheduledStart body) (c_scheduledEnd body) \<noteq> []"
    then show "createSchedule d usr errors body =
                  (Conflict (conflict_query (schedules d) None (userId tech)
                     (c_scheduledStart body) (c_scheduledEnd body)), d)"
      using h createSchedule_conflict[of usr errors d body tech sr] by blast }
next
  assume h: "userType usr = ''admin''
      \<and> Schedule_findById (schedules d) i = Some s
      \<and> (u_scheduledStart ub \<noteq> None \<or> u_scheduledEnd ub \<noteq> None)
      \<and> (js_or_str (u_status ub) (status s) = status s
          \<or> js_or_str (u_status ub) (status s) \<in> set status_enum)"
  show "is_Updated (fst (updateSchedule d usr i ub))
            \<longleftrightarrow> conflict_query (schedules d) (Some i) (technician s)
                  (date_or (u_scheduledStart ub) (scheduledStart s))
                  (date_or (u_scheduledEnd ub) (scheduledEnd s)) = []"
    using h updateSchedule_accepts_store[of usr d i s ub] updateSchedule_conflict[of usr d i s ub]
    by (cases "conflict_query (schedules d) (Some i) (technician s)
                  (date_or (u_scheduledStart ub) (scheduledStart s))
                  (date_or (u_scheduledEnd ub) (scheduledEnd s)) = []") auto
  { assume e: "conflict_query (schedules d) (Some i) (technician s)
              (date_or (u_scheduledStart ub) (scheduledStart s))
              (date_or (u_scheduledEnd ub) (scheduledEnd s)) = []"
    then show eq: "updateSchedule d usr i ub =
                 (Updated (s\<lparr>scheduledStart := date_or (u_scheduledStart ub) (scheduledStart s),
                             scheduledEnd := date_or (u_scheduledEnd ub) (scheduledEnd s),
                             status := js_or_str (u_status ub) (status s),
                             sched_notes := js_or (u_notes ub) (sched_notes s)\<rparr>),
                  d\<lparr>schedules := save_schedule
                       (s\<lparr>scheduledStart := date_or (u_scheduledStart ub) (scheduledStart s),
                          scheduledEnd := date_or (u_scheduledEnd ub) (scheduledEnd s),
                          status := js_or_str (u_status ub) (status s),
                          sched_notes := js_or (u_notes ub) (sched_notes s)\<rparr>)
                       (schedules d)\<rparr>)"
      using h updateSchedule_accepts_store[of usr d i s ub] by blast
    show "Schedule_findById (schedules (snd (updateSchedule d usr i ub))) i =
                   Some (s\<lparr>scheduledStart := date_or (u_scheduledStart ub) (scheduledStart s),
                           scheduledEnd := date_or (u_scheduledEnd ub) (scheduledEnd s),
                           status := js_or_str (u_status ub) (status s),
                           sched_notes := js_or (u_notes ub) (sched_notes s)\<rparr>)"
      unfolding eq using h save_schedule_find[of "schedules d" i s] by simp }
  { assume "conflict_query (schedules d) (Some i) (technician s)
              (date_or (u_scheduledStart ub) (scheduledStart s))
              (date_or (u_scheduledEnd ub) (scheduledEnd s)) \<noteq> []"
    then show "updateSchedule d usr i ub =
                  (Conflict (conflict_query (schedules d) (Some i) (technician s)
                     (date_or (u_scheduledStart ub) (scheduledStart s))
                     (date_or (u_scheduledEnd ub) (scheduledEnd s))), d)"
      using h updateSchedule_conflict[of usr d i s ub] by blast }
next
  show "http_status (Conflict cs) = 400" by simp
  show "http_status (Created j) = 201" by simp
  show "http_status (Updated x) = 200" by simp
qed

theorem conflict_query_decides_witness:
  "createSchedule ex_db ex_admin [] (ex_body (hour 10) (hour 12)) = (Conflict [ex_sched], ex_db)
   \<and> createSchedule ex_db ex_admin [] (ex_body (hour 11) (hour 12))
       = (Created 2,
          ex_db\<lparr>schedules := [ex_sched,
             \<lparr>sched_id = 2, technician = 1, supportRequest = Some 7,
              scheduledStart = hour 11, scheduledEnd = hour 12, status = ''scheduled'',
              sched_notes = None, priority = ''high'', location = None,
              createdBy = Some 100\<rparr>]\<rparr>)
   \<and> updateSchedule ex_db2 ex_admin 2 (ex_window_patch (Some (hour 10)) None)
       = (Conflict [ex_sched], ex_db2)
   \<and> updateSchedule ex_db2 ex_admin 2 (ex_window_patch None (Some (hour 14)))
       = (Updated (ex_sched\<lparr>sched_id := 2, scheduledStart := hour 11, scheduledEnd := hour 14\<rparr>),
          ex_db2\<lparr>schedules := [ex_sched,
             ex_sched\<lparr>sched_id := 2, scheduledStart := hour 11, scheduledEnd := hour 14\<rparr>]\<rparr>)"
proof -
  have c: "userType ex_admin = ''admin'' \<and> ([]::string list) = []
      \<and> User_findById (users ex_db) (c_technicianId (ex_body s e)) = Some ex_tech
      \<and> userType ex_tech = ''technician''
      \<and> SupportRequest_findById (requests ex_db) (c_supportRequestId (ex_body s e)) = Some ex_request
      \<and> schedule_priority (c_priority (ex_body s e)) (req_priority ex_request) \<in> set priority_enum"
    for s e
    by (simp add: ex_create_simps)
  have u: "userType ex_admin = ''admin''
      \<and> Schedule_findById (schedules ex_db2) 2 =
          Some (ex_sched\<lparr>sched_id := 2, scheduledStart := hour 11, scheduledEnd := hour 13\<rparr>)
      \<and> js_or_str (u_status (ex_window_patch s e))
            (status (ex_sched\<lparr>sched_id := 2, scheduledStart := hour 11, scheduledEnd := hour 13\<rparr>))
          = status (ex_sched\<lparr>sched_id := 2, scheduledStart := hour 11, scheduledEnd := hour 13\<rparr>)"
    for s e
    by (simp add: ex_simps ex_db2_def ex_window_patch_def)
  have q1: "conflict_query (schedules ex_db) None (userId ex_tech)
              (c_scheduledStart (ex_body (hour 10) (hour 12)))
              (c_scheduledEnd (ex_body (hour 10) (hour 12))) = [ex_sched]"
    by (simp add: ex_create_simps)
  have q2: "conflict_query (schedules ex_db) None (userId ex_tech)
              (c_scheduledStart (ex_body (hour 11) (hour 12)))
              (c_scheduledEnd (ex_body (hour 11) (hour 12))) = []"
    by (simp add: ex_create_simps)
  have q3: "conflict_query (schedules ex_db2) (Some 2)
              (technician (ex_sched\<lparr>sched_id := 2, scheduledStart := hour 11, scheduledEnd := hour 13\<rparr>))
              (date_or (u_scheduledStart (ex_window_patch (Some (hour 10)) None))
                 (scheduledStart (ex_sched\<lparr>sched_id := 2, scheduledStart := hour 11, scheduledEnd := hour 13\<rparr>)))
              (date_or (u_scheduledEnd (ex_window_patch (Some (hour 10)) None))
                 (scheduledEnd (ex_sched\<lparr>sched_id := 2, scheduledStart := hour 11, scheduledEnd := hour 13\<rparr>)))
            = [ex_sched]"
    by (simp add: ex_simps ex_db2_def ex_window_patch_def nin_terminal_def)
  have q4: "conflict_query (schedules ex_db2) (Some 2)
              (technician (ex_sched\<lparr>sched_id := 2, scheduledStart := hour 11, scheduledEnd := hour 13\<rparr>))
              (date_or (u_scheduledStart (ex_window_patch None (Some (hour 14))))
                 (scheduledStart (ex_sched\<lparr>sched_id := 2, scheduledStart := hour 11, scheduledEnd := hour 13\<rparr>)))
              (date_or (u_scheduledEnd (ex_window_patch None (Some (hour 14))))
                 (scheduledEnd (ex_sched\<lparr>sched_id := 2, scheduledStart := hour 11, scheduledEnd := hour 13\<rparr>)))
            = []"
    by (simp add: ex_simps ex_db2_def ex_window_patch_def nin_terminal_def)
  have p: "u_scheduledStart (ex_window_patch (Some (hour 10)) None) \<noteq> None"
          "u_scheduledEnd (ex_window_patch None (Some (hour 14))) \<noteq> None"
    by (simp_all add: ex_window_patch_def)
  have r1: "createSchedule ex_db ex_admin [] (ex_body (hour 10) (hour 12)) = (Conflict [ex_sched], ex_db)"
    using conflict_query_decides [of ex_admin "[]" ex_db "ex_body (hour 10) (hour 12)" ex_tech ex_request]
          c[of "hour 10" "hour 12"] q1 by simp
  have r2: "createSchedule ex_db ex_admin [] (ex_body (hour 11) (hour 12))
       = (Created 2,
          ex_db\<lparr>schedules := [ex_sched,
             \<lparr>sched_id = 2, technician = 1, supportRequest = Some 7,
              scheduledStart = hour 11, scheduledEnd = hour 12, status = ''scheduled'',
              sched_notes = None, priority = ''high'', location = None,
              createdBy = Some 100\<rparr>]\<rparr>)"
    using conflict_query_decides [of ex_admin "[]" ex_db "ex_body (hour 11) (hour 12)" ex_tech ex_request]
          c[of "hour 11" "hour 12"] q2
    by (simp add: ex_create_simps)
  have r3: "updateSchedule ex_db2 ex_admin 2 (ex_window_patch (Some (hour 10)) None)
       = (Conflict [ex_sched], ex_db2)"
    using conflict_query_decides [of ex_admin _ ex_db2 _ _ _ 2
             "ex_sched\<lparr>sched_id := 2, scheduledStart := hour 11, scheduledEnd := hour 13\<rparr>"
             "ex_window_patch (Some (hour 10)) None"]
          u q3 p by simp
  have r4: "updateSchedule ex_db2 ex_admin 2 (ex_window_patch None (Some (hour 14)))
       = (Updated (ex_sched\<lparr>sched_id := 2, scheduledStart := hour 11, scheduledEnd := hour 14\<rparr>),
          ex_db2\<lparr>schedules := [ex_sched,
             ex_sched\<lparr>sched_id := 2, scheduledStart := hour 11, scheduledEnd := hour 14\<rparr>]\<rparr>)"
    using conflict_query_decides [of ex_admin _ ex_db2 _ _ _ 2
             "ex_sched\<lparr>sched_id := 2, scheduledStart := hour 11, scheduledEnd := hour 13\<rparr>"
             "ex_window_patch None (Some (hour 14))"]
          u q4 p
    by (simp add: ex_simps ex_db2_def ex_window_patch_def)
  from r1 r2 r3 r4 show ?thesis by simp
qed

section \<open>The two conflict checks\<close>

text \<open>The controller's query, spelled out; it is the payload of both handlers' conflict
  answers, and it never returns a schedule adjacent to the window.\<close>

lemma conflict_query_filter:
  "conflict_query ss ex t s e =
     filter (\<lambda>x. technician x = t \<and> scheduledStart x < e \<and> scheduledEnd x > s
                \<and> status x \<noteq> ''completed'' \<and> status x \<noteq> ''cancelled''
                \<and> ex \<noteq> Some (sched_id x)) ss"
  unfolding conflict_query_def nin_terminal_def
  by (rule filter_cong) (auto split: option.splits)

lemma createSchedule_Conflict:
  "createSchedule d usr errors body = (Conflict cs, d') \<Longrightarrow>
     \<exists>tech. User_findById (users d) (c_technicianId body) = Some tech
        \<and> cs = conflict_query (schedules d) None (userId tech)
                 (c_scheduledStart body) (c_scheduledEnd body)"
  by (auto simp: createSchedule_def Let_def split: if_splits option.splits)

lemma updateSchedule_Conflict:
  "updateSchedule d usr i ub = (Conflict cs, d') \<Longrightarrow>
     \<exists>sc. Schedule_findById (schedules d) i = Some sc
        \<and> cs = conflict_query (schedules d) (Some i) (technician sc)
                 (date_or (u_scheduledStart ub) (scheduledStart sc))
                 (date_or (u_scheduledEnd ub) (scheduledEnd sc))"
  by (auto simp: updateSchedule_def apply_update_def Let_def date_or_idem
           split: if_splits option.splits sum.splits)

lemma conflict_query_adjacent:
  "scheduledEnd x = s \<or> scheduledStart x = e \<Longrightarrow> x \<notin> set (conflict_query ss ex t s e)"
  by (auto simp: conflict_query_def)

lemma conflict_query_disjoint:
  assumes "\<forall>x\<in>set ss. technician x = t \<and> nin_terminal (status x) \<longrightarrow>
             scheduledEnd x \<le> s \<or> e \<le> scheduledStart x"
  shows "conflict_query ss None t s e = []"
  using assms by (auto simp: conflict_query_def filter_empty_conv)

text \<open>So the controller's \<^verbatim>\<open>createSchedule\<close> accepts an otherwise valid request whose
  window lies before or after, or exactly next to, every active schedule of the technician.\<close>

lemma createSchedule_adjacent_succeeds:
  assumes "userType usr = ''admin''" and "errors = []"
    and "User_findById (users d) (c_technicianId body) = Some tech"
    and "userType tech = ''technician''"
    and "SupportRequest_findById (requests d) (c_supportRequestId body) = Some sr"
    and "schedule_priority (c_priority body) (req_priority sr) \<in> set priority_enum"
    and "\<forall>x\<in>set (schedules d). technician x = userId tech \<and> nin_terminal (status x) \<longrightarrow>
           scheduledEnd x \<le> c_scheduledStart body \<or> c_scheduledEnd body \<le> scheduledStart x"
  shows "is_Created (fst (createSchedule d usr errors body))"
  using createSchedule_accepts[OF assms(1-6)] conflict_query_disjoint[OF assms(7)] by simp

text \<open>The service's check finds nothing in any collection: its window conditions are on
  paths that no stored schedule has.\<close>

lemma checkScheduleConflicts_empty: "checkScheduleConflicts ss t s e ex = []"
  by (simp add: checkScheduleConflicts_def path_startTime_def op_lt_def)

text \<open>The equations that evaluate the service on the example stores.\<close>

lemmas ex_service_simps = checkScheduleConflicts_def getAvailableTechnicians_def
  service_createSchedule_def Schedule_create_def autoAssignTechnician_def
  SupportRequest_findById_def path_startTime_def path_endTime_def op_lt_def op_gt_def
  js_or_str_def status_enum_def priority_enum_def new_ObjectId_def has_active_overlap_def
  nin_terminal_def ex_db_def ex_db0_def ex_sched_def ex_admin_def ex_tech_def
  ex_tech2_def ex_request_def ex_schedule_data_def hour_def Let_def

text \<open>Claim C4. The conflict check should return exactly the technician's schedules that
  overlap the window and are neither completed nor cancelled. The controller's inline
  query does: for technician 1 with a scheduled 09:00 to 11:00 and the window 10:00 to
  12:00 it returns that schedule. The service's \<^verbatim>\<open>checkScheduleConflicts\<close> returns nothing on
  the same input, since it compares \<^verbatim>\<open>startTime\<close> and \<^verbatim>\<open>endTime\<close>, which the stored schedule
  does not have.\<close>

theorem checkScheduleConflicts_misses_overlap:
  "technician ex_sched = 1 \<and> status ex_sched = ''scheduled''
   \<and> scheduledStart ex_sched < hour 12 \<and> scheduledEnd ex_sched > hour 10
   \<and> conflict_query [ex_sched] None 1 (hour 10) (hour 12) = [ex_sched]
   \<and> checkScheduleConflicts [ex_sched] 1 (hour 10) (hour 12) None = []"
  by (simp add: ex_service_simps conflict_query_def)

section \<open>Claims on the service\<close>

lemma getAvailableTechnicians_all:
  "getAvailableTechnicians d s e = filter (\<lambda>u. userType u = ''technician'') (users d)"
  by (simp add: getAvailableTechnicians_def path_startTime_def op_lt_def)

text \<open>Claim C6. \<^verbatim>\<open>getAvailableTechnicians\<close> should never return a technician who has an
  active schedule overlapping the window. Technician 1 has a scheduled 09:00 to 11:00; for
  the window 10:00 to 12:00 the function returns technician 1 along with technician 2: its
  busy query compares \<^verbatim>\<open>startTime\<close> and \<^verbatim>\<open>endTime\<close>, which no stored schedule has, so nobody
  is busy.\<close>

theorem getAvailableTechnicians_returns_busy:
  "schedules ex_db = [ex_sched] \<and> technician ex_sched = userId ex_tech
   \<and> has_active_overlap (schedules ex_db) (userId ex_tech) (hour 10) (hour 12)
   \<and> getAvailableTechnicians ex_db (hour 10) (hour 12) = [ex_tech, ex_tech2]"
  by (simp add: ex_service_simps)

text \<open>The service's \<^verbatim>\<open>createSchedule\<close> stores a schedule when the object carries the
  required paths of the schema, and \<^verbatim>\<open>autoAssignTechnician\<close>, whose object carries none of
  \<^verbatim>\<open>scheduledStart\<close>, \<^verbatim>\<open>scheduledEnd\<close>, \<^verbatim>\<open>createdBy\<close>, never does.\<close>

lemma service_createSchedule_example:
  "service_createSchedule ex_db ex_schedule_data =
     (Inr \<lparr>sched_id = 2, technician = 2, supportRequest = Some 7,
           scheduledStart = hour 9, scheduledEnd = hour 11, status = ''scheduled'',
           sched_notes = None, priority = ''medium'', location = None,
           createdBy = Some 100\<rparr>,
      ex_db\<lparr>requests := [ex_request\<lparr>req_status := ''scheduled''\<rparr>],
            schedules := [ex_sched,
              \<lparr>sched_id = 2, technician = 2, supportRequest = Some 7,
                scheduledStart = hour 9, scheduledEnd = hour 11, status = ''scheduled'',
                sched_notes = None, priority = ''medium'', location = None,
                createdBy = Some 100\<rparr>]\<rparr>)"
  by (simp add: ex_service_simps)

lemma autoAssignTechnician_stores_nothing:
  "isl (fst (autoAssignTechnician d rid preferredDate durationHours))
   \<and> snd (autoAssignTechnician d rid preferredDate durationHours) = d"
  by (simp add: autoAssignTechnician_def service_createSchedule_def Schedule_create_def
        checkScheduleConflicts_empty Let_def split: option.splits list.splits)

text \<open>Claim C7. \<^verbatim>\<open>autoAssignTechnician\<close> should create a schedule whose priority is that
  of the support request. For request 7, of priority high, with both technicians free, it
  selects technician 1 and then fails in \<^verbatim>\<open>Schedule.create\<close> with a validation error: the
  object it builds has \<^verbatim>\<open>startTime\<close> and \<^verbatim>\<open>endTime\<close> where the schema requires
  \<^verbatim>\<open>scheduledStart\<close> and \<^verbatim>\<open>scheduledEnd\<close>, and no \<^verbatim>\<open>createdBy\<close>. No schedule is stored.\<close>

theorem autoAssign_creates_no_schedule:
  "SupportRequest_findById (requests ex_db0) (Some 7) = Some ex_request
   \<and> req_priority ex_request = Some ''high''
   \<and> getAvailableTechnicians ex_db0 (hour 9) (hour 11) = [ex_tech, ex_tech2]
   \<and> autoAssignTechnician ex_db0 7 (hour 9) 2 = (Inl ValidationError, ex_db0)"
  by (simp add: ex_service_simps)

end
